theory Spec2Isabelle
  imports Main "HOL-Library.Sublist"
begin

section \<open>Data model\<close>

text \<open>
  JavaScript strings are modelled as \<^typ>\<open>string\<close>, one \<^typ>\<open>char\<close> per code unit. The
  regular expression of the source has no \<^verbatim>\<open>u\<close> flag, so it works unit by unit, and
  the width of a unit plays no role in what follows.

  JSON values, as they come out of \<^verbatim>\<open>JSON.parse\<close> and off the wire from a tool server.
  A number is held as the text that JavaScript prints for it (\<^verbatim>\<open>Number::toString\<close>):
  \<^verbatim>\<open>4\<close> for four, \<^verbatim>\<open>1.5\<close> for three halves, \<^verbatim>\<open>1e+21\<close> for ten to the power 21. This text
  is what \<^verbatim>\<open>JSON.stringify\<close> emits for a finite number, and parsed JSON holds no other
  numbers.
\<close>

datatype json =
    JNull
  | JBool bool
  | JNum string
  | JStr string
  | JArr "json list"
  | JObj "(string \<times> json) list"

text \<open>
  Every exception the orchestrator can let escape. The source throws plain
  \<^verbatim>\<open>Error\<close> objects told apart by their message:
  \<^verbatim>\<open>Unknown tool name: X\<close> is \<open>UnknownToolError X\<close> and
  \<^verbatim>\<open>Unknown server: X\<close> is \<open>UnknownServerError X\<close>. \<open>MalformedArgumentsError\<close> is the
  \<^verbatim>\<open>SyntaxError\<close> of \<^verbatim>\<open>JSON.parse\<close>, \<open>TypeError\<close> the read of a property of
  \<^verbatim>\<open>undefined\<close>. \<open>ProviderError\<close> and \<open>ServerError\<close> are what the provider SDK and a
  server connection throw. \<open>DuplicateServerError\<close> is the error the specification names
  for a second registration under one name.
\<close>

datatype error =
    UnknownToolError string
  | UnknownServerError string
  | MalformedArgumentsError
  | TypeError
  | ProviderError string
  | ServerError string
  | DuplicateServerError string

text \<open>An entry of a server's \<^verbatim>\<open>listTools()\<close> answer; \<^verbatim>\<open>description\<close> is optional.\<close>

record native_tool =
  nt_name :: string
  nt_description :: "string option"
  nt_inputSchema :: json

text \<open>
  \<^verbatim>\<open>OpenAI.ChatCompletionTool\<close>: \<^verbatim>\<open>{type: "function", function: {name, description,
  parameters}}\<close>. The \<^verbatim>\<open>type\<close> field is the constant \<^verbatim>\<open>"function"\<close> and is left out.
\<close>

record tool =
  fn_name :: string
  fn_description :: string
  fn_parameters :: json

text \<open>The payload of a \<^verbatim>\<open>callTool\<close> answer; \<^verbatim>\<open>content\<close> may be missing.\<close>

record tool_result =
  tr_content :: "json option"

text \<open>
  A connected MCP client. \<open>connect\<close> is the outcome of \<^verbatim>\<open>client.connect(transport)\<close>
  (\<open>None\<close>: connected), \<open>listTools\<close> that of the tool-listing handshake, \<open>callTool\<close> the
  answer to \<^verbatim>\<open>callTool({name, arguments})\<close>.
\<close>

record client =
  connect :: "error option"
  listTools :: "error + native_tool list"
  callTool :: "string \<Rightarrow> json \<Rightarrow> error + tool_result"

text \<open>\<^verbatim>\<open>type MCPServer\<close>; the transport is owned by the client and not modelled.\<close>

record MCPServer =
  srv_name :: string
  srv_client :: client
  srv_functions :: "tool list"

text \<open>A tool call issued by the model: \<^verbatim>\<open>{id, type: "function", function: {name, arguments}}\<close>.\<close>

record tool_call =
  tc_id :: string
  tc_name :: string
  tc_arguments :: string

datatype role = System | User | Assistant | Tool

text \<open>
  \<^verbatim>\<open>OpenAI.ChatCompletionMessageParam\<close> as the object literals of the source build it:
  a field that a literal does not set is \<open>None\<close>.
\<close>

record message =
  role :: role
  content :: "string option"
  tool_calls :: "tool_call list option"
  tool_call_id :: "string option"

text \<open>The message of a choice of a model response: \<^verbatim>\<open>content\<close> may be \<^verbatim>\<open>null\<close>,
  \<^verbatim>\<open>tool_calls\<close> may be missing.\<close>

record response_message =
  rm_content :: "string option"
  rm_tool_calls :: "tool_call list option"

record model_response =
  choices :: "response_message list"

datatype tool_choice = Auto | NoTools

text \<open>
  The arguments of one call of \<^verbatim>\<open>LLM.chat(messages, tools?, tool_choice?)\<close>; an argument
  the caller leaves out is \<open>None\<close>.
\<close>

record chat_request =
  req_messages :: "message list"
  req_tools :: "tool list option"
  req_tool_choice :: "tool_choice option"

type_synonym LLM = "chat_request \<Rightarrow> error + model_response"

text \<open>The fields of \<^verbatim>\<open>class MCPOrchestrator\<close>.\<close>

record MCPOrchestrator =
  llm :: LLM
  systemPrompt :: string
  servers :: "string \<rightharpoonup> MCPServer"
  allFunctions :: "tool list"

section \<open>String operations of the source\<close>

text \<open>The character class \<^verbatim>\<open>[a-zA-Z0-9_-]\<close>.\<close>

definition safe_char :: "char \<Rightarrow> bool" where
  "safe_char c =
     (let n = (of_char c :: nat)
      in (97 \<le> n \<and> n \<le> 122) \<or> (65 \<le> n \<and> n \<le> 90) \<or> (48 \<le> n \<and> n \<le> 57)
         \<or> c = CHR ''_'' \<or> c = CHR ''-'')"

text \<open>\<^verbatim>\<open>s.replace(/[^a-zA-Z0-9_-]/g, "_")\<close>\<close>

definition sanitize :: "string \<Rightarrow> string" where
  "sanitize s = map (\<lambda>c. if safe_char c then c else CHR ''_'') s"

text \<open>\<^verbatim>\<open>s.split(c)\<close> for a separator of one character: never the empty list.\<close>

fun split :: "char \<Rightarrow> string \<Rightarrow> string list" where
  "split c [] = ['''']"
| "split c (x # xs) =
     (if x = c then [] # split c xs
      else (let ps = split c xs in (x # hd ps) # tl ps))"

text \<open>
  \<^verbatim>\<open>s.replace(pat, rep)\<close> with a string pattern: only the first occurrence of \<open>pat\<close>,
  searched from the left, is replaced.
\<close>

fun replace :: "string \<Rightarrow> string \<Rightarrow> string \<Rightarrow> string" where
  "replace pat rep [] = (if pat = [] then rep else [])"
| "replace pat rep (x # xs) =
     (if prefix pat (x # xs) then rep @ drop (length pat) (x # xs)
      else x # replace pat rep xs)"

section \<open>Registration\<close>

text \<open>The descriptor built by the \<^verbatim>\<open>map\<close> callback of both registration paths.\<close>

definition qualifiedName :: "string \<Rightarrow> string \<Rightarrow> string" where
  "qualifiedName name tname = sanitize (name @ ''_'' @ tname)"

definition template_str :: "string option \<Rightarrow> string" where
  "template_str d = (case d of None \<Rightarrow> ''undefined'' | Some s \<Rightarrow> s)"

definition make_function :: "string \<Rightarrow> native_tool \<Rightarrow> tool" where
  "make_function name t =
     \<lparr> fn_name = qualifiedName name (nt_name t),
       fn_description = ''['' @ name @ ''] '' @ template_str (nt_description t),
       fn_parameters = nt_inputSchema t \<rparr>"

text \<open>
  \<^verbatim>\<open>MCPOrchestrator.registerServer\<close>, and the body of the loop of
  \<^verbatim>\<open>registerServersFromConfig\<close>, which is the same code: connect, list the tools, build
  the descriptors, \<^verbatim>\<open>servers.set\<close>, \<^verbatim>\<open>allFunctions.push\<close>. An exception of the
  connection leaves the orchestrator as it was.
\<close>

definition registerServer :: "string \<Rightarrow> client \<Rightarrow> MCPOrchestrator \<Rightarrow> error + MCPOrchestrator" where
  "registerServer name c orc =
     (case connect c of
        Some e \<Rightarrow> Inl e
      | None \<Rightarrow>
          (case listTools c of
             Inl e \<Rightarrow> Inl e
           | Inr tools \<Rightarrow>
               (let functions = map (make_function name) tools
                in Inr (orc\<lparr> servers := (servers orc)(name \<mapsto>
                              \<lparr> srv_name = name, srv_client = c, srv_functions = functions \<rparr>),
                            allFunctions := allFunctions orc @ functions \<rparr>))))"

text \<open>
  \<^verbatim>\<open>registerServersFromConfig\<close>: the entries of the configuration in the order of
  \<^verbatim>\<open>Object.entries\<close>, each with the client its launch specification leads to. The
  first exception ends the loop; the registrations made before it stay.
\<close>

fun registerServersFromConfig ::
  "MCPOrchestrator \<Rightarrow> (string \<times> client) list \<Rightarrow> error option \<times> MCPOrchestrator" where
  "registerServersFromConfig orc [] = (None, orc)"
| "registerServersFromConfig orc ((name, c) # rest) =
     (case registerServer name c orc of
        Inl e \<Rightarrow> (Some e, orc)
      | Inr orc' \<Rightarrow> registerServersFromConfig orc' rest)"

text \<open>The constructor: no server, no tool.\<close>

definition new_orchestrator :: "LLM \<Rightarrow> string \<Rightarrow> MCPOrchestrator" where
  "new_orchestrator l p =
     \<lparr> llm = l, systemPrompt = p, servers = Map.empty, allFunctions = [] \<rparr>"

section \<open>Tool results as text\<close>

text \<open>\<^verbatim>\<open>JSON.stringify\<close> without indentation, on the values of \<^typ>\<open>json\<close>.\<close>

text \<open>The lower-case hexadecimal digit of a number below 16.\<close>

definition hex_digit :: "nat \<Rightarrow> char" where
  "hex_digit n = ''0123456789abcdef'' ! n"

text \<open>The escapes of \<^verbatim>\<open>QuoteJSONString\<close>.\<close>

definition escape_char :: "char \<Rightarrow> string" where
  "escape_char c =
     (let n = (of_char c :: nat)
      in if c = CHR 0x22 then [CHR 0x5C, CHR 0x22]
         else if c = CHR 0x5C then [CHR 0x5C, CHR 0x5C]
         else if n = 8 then [CHR 0x5C, CHR ''b'']
         else if n = 9 then [CHR 0x5C, CHR ''t'']
         else if n = 10 then [CHR 0x5C, CHR ''n'']
         else if n = 12 then [CHR 0x5C, CHR ''f'']
         else if n = 13 then [CHR 0x5C, CHR ''r'']
         else if n < 32 then [CHR 0x5C, CHR ''u'', CHR ''0'', CHR ''0'', hex_digit (n div 16), hex_digit (n mod 16)]
         else [c])"

definition quote :: "string \<Rightarrow> string" where
  "quote s = [CHR 0x22] @ concat (map escape_char s) @ [CHR 0x22]"

fun join :: "string \<Rightarrow> string list \<Rightarrow> string" where
  "join sep [] = []"
| "join sep [x] = x"
| "join sep (x # y # ys) = x @ sep @ join sep (y # ys)"

primrec JSON_stringify :: "json \<Rightarrow> string" where
  "JSON_stringify JNull = ''null''"
| "JSON_stringify (JBool b) = (if b then ''true'' else ''false'')"
| "JSON_stringify (JNum t) = t"
| "JSON_stringify (JStr s) = quote s"
| "JSON_stringify (JArr vs) = ''['' @ join '','' (map JSON_stringify vs) @ '']''"
| "JSON_stringify (JObj kvs) =
     ''{'' @ join '','' (map (\<lambda>(k, t). quote k @ '':'' @ t) (map (map_prod id JSON_stringify) kvs)) @ ''}''"

text \<open>\<^verbatim>\<open>x ?? d\<close>: the default replaces \<^verbatim>\<open>undefined\<close> and \<^verbatim>\<open>null\<close>.\<close>

definition nullish :: "json option \<Rightarrow> json \<Rightarrow> json" where
  "nullish x d = (case x of None \<Rightarrow> d | Some JNull \<Rightarrow> d | Some v \<Rightarrow> v)"

text \<open>
  \<^verbatim>\<open>typeof toolResult.content === "string" ? toolResult.content
     : JSON.stringify(toolResult.content ?? "")\<close>
\<close>

definition result_content :: "tool_result \<Rightarrow> string" where
  "result_content r =
     (case tr_content r of
        Some (JStr s) \<Rightarrow> s
      | c \<Rightarrow> JSON_stringify (nullish c (JStr [])))"

section \<open>Query processing\<close>

text \<open>
  What one \<^verbatim>\<open>processQuery\<close> does besides returning: the local \<^verbatim>\<open>messages\<close> array, the
  calls of \<^verbatim>\<open>llm.chat\<close> in order, and the calls of \<^verbatim>\<open>callTool\<close> in order, each with
  the name of the server object it went to.
\<close>

record run =
  messages :: "message list"
  requests :: "chat_request list"
  calls :: "(string \<times> string \<times> json) list"

text \<open>
  Lines 73 to 80 of \<^verbatim>\<open>processQuery\<close>: the descriptor is looked up by the name the model
  sent, the server name is what stands before the first \<^verbatim>\<open>_\<close> of the descriptor's
  name, and the tool name is the descriptor's name without the first occurrence of
  that prefix and its \<^verbatim>\<open>_\<close>.
\<close>

definition resolve :: "MCPOrchestrator \<Rightarrow> string \<Rightarrow> error + (MCPServer \<times> string)" where
  "resolve orc qn =
     (case find (\<lambda>f. fn_name f = qn) (allFunctions orc) of
        None \<Rightarrow> Inl (UnknownToolError qn)
      | Some toolMeta \<Rightarrow>
          (let serverName = hd (split CHR ''_'' (fn_name toolMeta))
           in case servers orc serverName of
                None \<Rightarrow> Inl (UnknownServerError serverName)
              | Some server \<Rightarrow>
                  Inr (server, replace (serverName @ ''_'') [] (fn_name toolMeta))))"

definition assistant_message :: "tool_call \<Rightarrow> message" where
  "assistant_message tc =
     \<lparr> role = Assistant, content = None, tool_calls = Some [tc], tool_call_id = None \<rparr>"

definition tool_message :: "tool_call \<Rightarrow> string \<Rightarrow> message" where
  "tool_message tc c =
     \<lparr> role = Tool, content = Some c, tool_calls = None, tool_call_id = Some (tc_id tc) \<rparr>"

text \<open>
  The \<^verbatim>\<open>for\<close> loop over \<^verbatim>\<open>response.tool_calls\<close>. \<open>JSON_parse\<close> is the built-in parser
  (\<open>None\<close>: it throws). The result is the exception that ended the loop, if any, and
  the run as it stood then.
\<close>

fun dispatch ::
  "(string \<Rightarrow> json option) \<Rightarrow> MCPOrchestrator \<Rightarrow> tool_call list \<Rightarrow> run \<Rightarrow> error option \<times> run" where
  "dispatch JSON_parse orc [] r = (None, r)"
| "dispatch JSON_parse orc (toolCall # rest) r =
     (case resolve orc (tc_name toolCall) of
        Inl e \<Rightarrow> (Some e, r)
      | Inr (server, toolName) \<Rightarrow>
          (case JSON_parse (tc_arguments toolCall) of
             None \<Rightarrow> (Some MalformedArgumentsError, r)
           | Some args \<Rightarrow>
               (let r' = r\<lparr> calls := calls r @ [(srv_name server, toolName, args)] \<rparr>
                in case callTool (srv_client server) toolName args of
                     Inl e \<Rightarrow> (Some e, r')
                   | Inr toolResult \<Rightarrow>
                       dispatch JSON_parse orc rest
                         (r'\<lparr> messages := messages r' @
                               [assistant_message toolCall,
                                tool_message toolCall (result_content toolResult)] \<rparr>))))"

text \<open>The two messages every query starts from.\<close>

definition seed :: "MCPOrchestrator \<Rightarrow> string \<Rightarrow> message list" where
  "seed orc query =
     [\<lparr> role = System, content = Some (systemPrompt orc), tool_calls = None, tool_call_id = None \<rparr>,
      \<lparr> role = User, content = Some query, tool_calls = None, tool_call_id = None \<rparr>]"

text \<open>\<^verbatim>\<open>message.content ?? ""\<close>\<close>

definition content_or_empty :: "response_message \<Rightarrow> string" where
  "content_or_empty m = (case rm_content m of None \<Rightarrow> [] | Some s \<Rightarrow> s)"

text \<open>
  \<^verbatim>\<open>MCPOrchestrator.processQuery\<close>. \<^verbatim>\<open>choices[0]\<close> of an empty \<^verbatim>\<open>choices\<close> is
  \<^verbatim>\<open>undefined\<close>, whose \<^verbatim>\<open>message\<close> is a \<^verbatim>\<open>TypeError\<close>. The second call of
  \<^verbatim>\<open>llm.chat\<close> passes the messages only.
\<close>

definition processQuery ::
  "(string \<Rightarrow> json option) \<Rightarrow> MCPOrchestrator \<Rightarrow> string \<Rightarrow> (error + string) \<times> run" where
  "processQuery JSON_parse orc query =
     (let req1 = \<lparr> req_messages = seed orc query,
                   req_tools = Some (allFunctions orc),
                   req_tool_choice = Some Auto \<rparr>;
          r1 = \<lparr> messages = seed orc query, requests = [req1], calls = [] \<rparr>
      in case llm orc req1 of
           Inl e \<Rightarrow> (Inl e, r1)
         | Inr result \<Rightarrow>
             (case choices result of
                [] \<Rightarrow> (Inl TypeError, r1)
              | response # _ \<Rightarrow>
                  (case rm_tool_calls response of
                     None \<Rightarrow> (Inr (content_or_empty response), r1)
                   | Some [] \<Rightarrow> (Inr (content_or_empty response), r1)
                   | Some (tc # tcs) \<Rightarrow>
                       (case dispatch JSON_parse orc (tc # tcs) r1 of
                          (Some e, r2) \<Rightarrow> (Inl e, r2)
                        | (None, r2) \<Rightarrow>
                            (let req2 = \<lparr> req_messages = messages r2,
                                          req_tools = None,
                                          req_tool_choice = None \<rparr>;
                                 r3 = r2\<lparr> requests := requests r2 @ [req2] \<rparr>
                             in case llm orc req2 of
                                  Inl e \<Rightarrow> (Inl e, r3)
                                | Inr final \<Rightarrow>
                                    (case choices final of
                                       [] \<Rightarrow> (Inl TypeError, r3)
                                     | m # _ \<Rightarrow> (Inr (content_or_empty m), r3)))))))"

section \<open>Provider adapters\<close>

text \<open>The request \<^verbatim>\<open>GPT.chat\<close> hands to \<^verbatim>\<open>openai.chat.completions.create\<close>.\<close>

record openai_request =
  o_model :: string
  o_messages :: "message list"
  o_tools :: "tool list"
  o_tool_choice :: tool_choice

text \<open>
  \<^verbatim>\<open>GPT.chat\<close>: the default parameters \<^verbatim>\<open>tools = []\<close> and \<^verbatim>\<open>tool_choice = "auto"\<close>
  stand in for arguments left out; the native response is returned as it is.
\<close>

definition GPT_chat :: "(openai_request \<Rightarrow> error + model_response) \<Rightarrow> LLM" where
  "GPT_chat create req =
     create \<lparr> o_model = ''gpt-4-1106-preview'',
              o_messages = req_messages req,
              o_tools = (case req_tools req of None \<Rightarrow> [] | Some ts \<Rightarrow> ts),
              o_tool_choice = (case req_tool_choice req of None \<Rightarrow> Auto | Some c \<Rightarrow> c) \<rparr>"

text \<open>
  A content block of a native Anthropic response: its \<^verbatim>\<open>type\<close>, the \<^verbatim>\<open>text\<close> of a
  text block, and the \<^verbatim>\<open>id\<close>, \<^verbatim>\<open>name\<close> and \<^verbatim>\<open>input\<close> of a \<^verbatim>\<open>tool_use\<close> block.
\<close>

record content_block =
  cb_type :: string
  cb_text :: "json option"
  cb_id :: "string option"
  cb_name :: "string option"
  cb_input :: "json option"

record anthropic_response =
  a_content :: "content_block list"

record anthropic_request =
  a_model :: string
  a_messages :: "message list"
  a_system :: "string option"
  a_tools :: "tool list"
  a_max_tokens :: nat

definition isTextBlock :: "content_block \<Rightarrow> bool" where
  "isTextBlock block =
     (cb_type block = ''text'' \<and> (case cb_text block of Some (JStr _) \<Rightarrow> True | _ \<Rightarrow> False))"

definition block_text :: "content_block \<Rightarrow> string" where
  "block_text block = (case cb_text block of Some (JStr s) \<Rightarrow> s | _ \<Rightarrow> [])"

text \<open>
  \<^verbatim>\<open>Claude.chat\<close>: the first text block is the content, and \<^verbatim>\<open>tool_calls\<close> is the
  literal \<^verbatim>\<open>[]\<close>.
\<close>

definition Claude_chat :: "(anthropic_request \<Rightarrow> error + anthropic_response) \<Rightarrow> LLM" where
  "Claude_chat create req =
     (case create \<lparr> a_model = ''claude-3-opus-20240229'',
                    a_messages = req_messages req,
                    a_system = (case find (\<lambda>m. role m = System) (req_messages req) of
                                  None \<Rightarrow> None | Some m \<Rightarrow> content m),
                    a_tools = (case req_tools req of None \<Rightarrow> [] | Some ts \<Rightarrow> ts),
                    a_max_tokens = 1024 \<rparr> of
        Inl e \<Rightarrow> Inl e
      | Inr res \<Rightarrow>
          (let firstTextBlock = find isTextBlock (a_content res)
           in Inr \<lparr> choices =
                [\<lparr> rm_content = Some (case firstTextBlock of None \<Rightarrow> [] | Some b \<Rightarrow> block_text b),
                   rm_tool_calls = Some [] \<rparr>] \<rparr>))"

section \<open>Notions used to state the properties\<close>

text \<open>
  A name made of letters, digits and \<^verbatim>\<open>-\<close> only: sanitizing leaves it as it is and it
  holds no separator. \<open>safe_name\<close> allows \<^verbatim>\<open>_\<close> as well.
\<close>

definition plain_name :: "string \<Rightarrow> bool" where
  "plain_name n = list_all (\<lambda>c. safe_char c \<and> c \<noteq> CHR ''_'') n"

definition safe_name :: "string \<Rightarrow> bool" where
  "safe_name n = list_all safe_char n"

text \<open>
  One pass of the loop body of \<^verbatim>\<open>processQuery\<close> seen from outside: the call it makes
  (server name, forwarded tool name, parsed arguments) and the text it puts into the
  tool message, or the exception that ends the query.
\<close>

definition invoke ::
  "(string \<Rightarrow> json option) \<Rightarrow> MCPOrchestrator \<Rightarrow> tool_call \<Rightarrow>
     error + ((string \<times> string \<times> json) \<times> string)" where
  "invoke JSON_parse orc toolCall =
     (case resolve orc (tc_name toolCall) of
        Inl e \<Rightarrow> Inl e
      | Inr (server, toolName) \<Rightarrow>
          (case JSON_parse (tc_arguments toolCall) of
             None \<Rightarrow> Inl MalformedArgumentsError
           | Some args \<Rightarrow>
               (case callTool (srv_client server) toolName args of
                  Inl e \<Rightarrow> Inl e
                | Inr toolResult \<Rightarrow>
                    Inr ((srv_name server, toolName, args), result_content toolResult))))"

text \<open>The messages a list of calls adds to the history, a pair for each call, in order.\<close>

definition appended ::
  "tool_call list \<Rightarrow> ((string \<times> string \<times> json) \<times> string) list \<Rightarrow> message list" where
  "appended tcs outs =
     concat (map2 (\<lambda>tc out. [assistant_message tc, tool_message tc (snd out)]) tcs outs)"

text \<open>The two shapes of a call of \<^verbatim>\<open>llm.chat\<close> in \<^verbatim>\<open>processQuery\<close>, and the run after
  the first of them.\<close>

definition first_request :: "MCPOrchestrator \<Rightarrow> string \<Rightarrow> chat_request" where
  "first_request orc query =
     \<lparr> req_messages = seed orc query, req_tools = Some (allFunctions orc),
       req_tool_choice = Some Auto \<rparr>"

definition bare_request :: "message list \<Rightarrow> chat_request" where
  "bare_request ms = \<lparr> req_messages = ms, req_tools = None, req_tool_choice = None \<rparr>"

definition start_run :: "MCPOrchestrator \<Rightarrow> string \<Rightarrow> run" where
  "start_run orc query =
     \<lparr> messages = seed orc query, requests = [first_request orc query], calls = [] \<rparr>"

section \<open>Concrete orchestrators\<close>

text \<open>
  The argument text \<^verbatim>\<open>{"a":2,"b":2}\<close> and its value, a parser that knows this text and
  \<^verbatim>\<open>{}\<close>, and the servers \<^verbatim>\<open>files\<close> and \<^verbatim>\<open>math\<close>, which both expose a tool
  \<^verbatim>\<open>read\<close>.
\<close>

definition add_text :: string where
  "add_text = [CHR ''{'', CHR 0x22, CHR ''a'', CHR 0x22, CHR '':'', CHR ''2'', CHR '','',
               CHR 0x22, CHR ''b'', CHR 0x22, CHR '':'', CHR ''2'', CHR ''}'']"

definition add_args :: json where
  "add_args = JObj [(''a'', JNum ''2''), (''b'', JNum ''2'')]"

definition demo_parse :: "string \<Rightarrow> json option" where
  "demo_parse s =
     (if s = ''{}'' then Some (JObj [])
      else if s = add_text then Some add_args
      else None)"

definition plain_tool :: "string \<Rightarrow> native_tool" where
  "plain_tool n = \<lparr> nt_name = n, nt_description = None, nt_inputSchema = JObj [] \<rparr>"

definition files_client :: client where
  "files_client =
     \<lparr> connect = None,
       listTools = Inr [\<lparr> nt_name = ''read'', nt_description = Some ''reads a file'',
                          nt_inputSchema = JObj [] \<rparr>],
       callTool = (\<lambda>name args.
          if name = ''read'' then Inr \<lparr> tr_content = Some (JStr ''data'') \<rparr>
          else Inl (ServerError ''no such tool'')) \<rparr>"

definition math_client :: client where
  "math_client =
     \<lparr> connect = None,
       listTools = Inr [plain_tool ''read'',
                        \<lparr> nt_name = ''add'', nt_description = Some ''adds'',
                          nt_inputSchema = JObj [] \<rparr>],
       callTool = (\<lambda>name args.
          if name = ''add'' then Inr \<lparr> tr_content = Some (JNum ''4'') \<rparr>
          else if name = ''read'' then Inr \<lparr> tr_content = None \<rparr>
          else Inl (ServerError ''no such tool'')) \<rparr>"

definition demo_entries :: "(string \<times> client) list" where
  "demo_entries = [(''files'', files_client), (''math'', math_client)]"

definition demo :: "LLM \<Rightarrow> MCPOrchestrator" where
  "demo l = snd (registerServersFromConfig (new_orchestrator l ''You are Bixby'') demo_entries)"

definition call_add :: tool_call where
  "call_add = \<lparr> tc_id = ''call_1'', tc_name = ''math_add'', tc_arguments = add_text \<rparr>"

definition call_read :: tool_call where
  "call_read = \<lparr> tc_id = ''call_2'', tc_name = ''files_read'', tc_arguments = ''{}'' \<rparr>"

definition call_void :: tool_call where
  "call_void = \<lparr> tc_id = ''call_3'', tc_name = ''math_read'', tc_arguments = ''{}'' \<rparr>"

definition call_mul :: tool_call where
  "call_mul = \<lparr> tc_id = ''call_4'', tc_name = ''math_mul'', tc_arguments = add_text \<rparr>"

definition tool_response :: "tool_call list \<Rightarrow> model_response" where
  "tool_response tcs = \<lparr> choices = [\<lparr> rm_content = None, rm_tool_calls = Some tcs \<rparr>] \<rparr>"

definition text_response :: "string \<Rightarrow> model_response" where
  "text_response s = \<lparr> choices = [\<lparr> rm_content = Some s, rm_tool_calls = None \<rparr>] \<rparr>"

text \<open>A model that asks for a tool in every response.\<close>

definition llm_always :: LLM where
  "llm_always req = Inr (tool_response [call_add])"

text \<open>Models that ask for tools when they see the two seed messages and answer in text
  afterwards.\<close>

definition llm_single :: LLM where
  "llm_single req =
     (if length (req_messages req) = 2 then Inr (tool_response [call_add])
      else Inr (text_response ''The answer is 4''))"

definition llm_tools :: LLM where
  "llm_tools req =
     (if length (req_messages req) = 2 then Inr (tool_response [call_add, call_read, call_void])
      else Inr (text_response ''The answer is 4''))"

definition llm_unknown :: LLM where
  "llm_unknown req =
     (if length (req_messages req) = 2 then Inr (tool_response [call_add, call_mul, call_read])
      else Inr (text_response ''The answer is 4''))"

text \<open>A client that lists the given tools and answers every call with an empty result.\<close>

definition static_client :: "native_tool list \<Rightarrow> client" where
  "static_client ts =
     \<lparr> connect = None, listTools = Inr ts,
       callTool = (\<lambda>name args. Inr \<lparr> tr_content = None \<rparr>) \<rparr>"

text \<open>Two servers whose names and tool names meet in one qualified name.\<close>

definition colliding :: MCPOrchestrator where
  "colliding =
     snd (registerServersFromConfig (new_orchestrator llm_always ''p'')
            [(''a'', static_client [plain_tool ''b_c'']),
             (''a_b'', static_client [plain_tool ''c''])])"

text \<open>A server with \<^verbatim>\<open>_\<close> in its name, alone and beside a server named like its prefix.\<close>

definition underscored :: MCPOrchestrator where
  "underscored =
     snd (registerServersFromConfig (new_orchestrator llm_always ''p'')
            [(''my_server'', static_client [plain_tool ''t''])])"

definition underscored_pair :: MCPOrchestrator where
  "underscored_pair =
     snd (registerServersFromConfig (new_orchestrator llm_always ''p'')
            [(''my'', static_client [plain_tool ''u'']),
             (''my_server'', static_client [plain_tool ''t''])])"

text \<open>A server whose one tool has a dot in its name and answers to that name only.\<close>

definition weather_client :: client where
  "weather_client =
     \<lparr> connect = None,
       listTools = Inr [plain_tool ''get.weather''],
       callTool = (\<lambda>name args.
          if name = ''get.weather'' then Inr \<lparr> tr_content = Some (JStr ''sunny'') \<rparr>
          else Inl (ServerError ''no such tool'')) \<rparr>"

definition call_weather :: tool_call where
  "call_weather = \<lparr> tc_id = ''call_1'', tc_name = ''s_get_weather'', tc_arguments = ''{}'' \<rparr>"

definition llm_weather :: LLM where
  "llm_weather req =
     (if length (req_messages req) = 2 then Inr (tool_response [call_weather])
      else Inr (text_response ''It is sunny''))"

definition weather :: MCPOrchestrator where
  "weather =
     snd (registerServersFromConfig (new_orchestrator llm_weather ''p'') [(''s'', weather_client)])"

text \<open>A native Anthropic response that holds one \<^verbatim>\<open>tool_use\<close> block.\<close>

definition tool_use_block :: content_block where
  "tool_use_block =
     \<lparr> cb_type = ''tool_use'', cb_text = None, cb_id = Some ''toolu_1'',
       cb_name = Some ''math_add'', cb_input = Some add_args \<rparr>"

definition anthropic_tool_use :: "anthropic_request \<Rightarrow> error + anthropic_response" where
  "anthropic_tool_use req = Inr \<lparr> a_content = [tool_use_block] \<rparr>"

text \<open>
  A model whose second response asks for the unknown tool \<^verbatim>\<open>math_mul\<close>, and a model
  whose first response asks for \<^verbatim>\<open>math_add\<close> with arguments that do not parse and then
  for \<^verbatim>\<open>math_mul\<close>.
\<close>

definition llm_late :: LLM where
  "llm_late req =
     (if length (req_messages req) = 2 then Inr (tool_response [call_add])
      else Inr (tool_response [call_mul]))"

definition call_bad :: tool_call where
  "call_bad = \<lparr> tc_id = ''call_5'', tc_name = ''math_add'', tc_arguments = ''{'' \<rparr>"

definition llm_masked :: LLM where
  "llm_masked req =
     (if length (req_messages req) = 2 then Inr (tool_response [call_bad, call_mul])
      else Inr (text_response ''The answer is 4''))"

text \<open>
  A server whose tool \<^verbatim>\<open>blocks\<close> answers with an array of one content block, as the
  MCP client library delivers it, and whose tool \<^verbatim>\<open>null\<close> answers with \<^verbatim>\<open>null\<close>; the
  text \<^verbatim>\<open>[{"type":"text","text":"4"}]\<close>; and a model that calls five tools at once.
\<close>

definition blocks_value :: json where
  "blocks_value = JArr [JObj [(''type'', JStr ''text''), (''text'', JStr ''4'')]]"

definition blocks_text :: string where
  "blocks_text =
     ''[{'' @ [CHR 0x22] @ ''type'' @ [CHR 0x22] @ '':'' @ [CHR 0x22] @ ''text'' @ [CHR 0x22]
     @ '','' @ [CHR 0x22] @ ''text'' @ [CHR 0x22] @ '':'' @ [CHR 0x22] @ ''4'' @ [CHR 0x22]
     @ ''}]''"

definition sdk_client :: client where
  "sdk_client =
     \<lparr> connect = None,
       listTools = Inr [plain_tool ''blocks'', plain_tool ''null''],
       callTool = (\<lambda>name args.
          if name = ''blocks'' then Inr \<lparr> tr_content = Some blocks_value \<rparr>
          else if name = ''null'' then Inr \<lparr> tr_content = Some JNull \<rparr>
          else Inl (ServerError ''no such tool'')) \<rparr>"

definition call_blocks :: tool_call where
  "call_blocks = \<lparr> tc_id = ''call_6'', tc_name = ''sdk_blocks'', tc_arguments = ''{}'' \<rparr>"

definition call_null :: tool_call where
  "call_null = \<lparr> tc_id = ''call_7'', tc_name = ''sdk_null'', tc_arguments = ''{}'' \<rparr>"

definition llm_five :: LLM where
  "llm_five req =
     (if length (req_messages req) = 2
      then Inr (tool_response [call_add, call_read, call_void, call_blocks, call_null])
      else Inr (text_response ''The answer is 4''))"

definition five :: MCPOrchestrator where
  "five =
     snd (registerServersFromConfig (new_orchestrator llm_five ''You are Bixby'')
            [(''files'', files_client), (''math'', math_client), (''sdk'', sdk_client)])"

section \<open>Lemmas about the string operations, registration and dispatch\<close>

lemma sanitize_append: "sanitize (a @ b) = sanitize a @ sanitize b"
  by (simp add: sanitize_def)

lemma safe_underscore: "safe_char CHR ''_''"
  by (simp add: safe_char_def)

lemma sanitize_safe: "safe_name n \<Longrightarrow> sanitize n = n"
  by (induction n) (simp_all add: sanitize_def safe_name_def)

lemma plain_safe: "plain_name n \<Longrightarrow> safe_name n"
  by (induction n) (simp_all add: plain_name_def safe_name_def)

lemma plain_no_sep: "plain_name n \<Longrightarrow> CHR ''_'' \<notin> set n"
  by (induction n) (auto simp: plain_name_def)

lemma qualifiedName_plain:
  "plain_name n \<Longrightarrow> qualifiedName n t = n @ CHR ''_'' # sanitize t"
  by (simp add: qualifiedName_def sanitize_append sanitize_safe plain_safe)
     (simp add: sanitize_def safe_underscore)

lemma hd_split: "c \<notin> set n \<Longrightarrow> hd (split c (n @ c # rest)) = n"
  by (induction n) (auto simp: Let_def)

lemma replace_prefix: "replace (p @ [c]) [] (p @ c # rest) = rest"
  by (cases p) simp_all

lemma sep_cancel:
  "c \<notin> set a \<Longrightarrow> c \<notin> set b \<Longrightarrow> a @ c # x = b @ c # y \<Longrightarrow> a = b \<and> x = y"
proof (induction a arbitrary: b)
  case Nil
  then show ?case by (cases b) auto
next
  case (Cons h a)
  then show ?case by (cases b) auto
qed

lemma registerServer_Inr:
  assumes "registerServer n c orc = Inr orc'"
  obtains ts where "connect c = None" "listTools c = Inr ts"
    "orc' = orc\<lparr> servers := (servers orc)(n \<mapsto>
              \<lparr> srv_name = n, srv_client = c, srv_functions = map (make_function n) ts \<rparr>),
            allFunctions := allFunctions orc @ map (make_function n) ts \<rparr>"
  using assms
  by (auto simp: registerServer_def Let_def split: option.splits sum.splits)

lemma registerServer_ok:
  "connect c = None \<Longrightarrow> listTools c = Inr ts \<Longrightarrow>
   registerServer n c orc = Inr (orc\<lparr> servers := (servers orc)(n \<mapsto>
              \<lparr> srv_name = n, srv_client = c, srv_functions = map (make_function n) ts \<rparr>),
            allFunctions := allFunctions orc @ map (make_function n) ts \<rparr>)"
  by (simp add: registerServer_def Let_def)

lemma fn_name_make_function: "fn_name (make_function n t) = qualifiedName n (nt_name t)"
  by (simp add: make_function_def)

lemma register_more_servers:
  "n \<notin> fst ` set later_entries \<Longrightarrow> servers (snd (registerServersFromConfig orc later_entries)) n = servers orc n"
proof (induction later_entries arbitrary: orc)
  case Nil
  then show ?case by simp
next
  case (Cons e later_entries)
  obtain m c where e: "e = (m, c)" by (cases e)
  show ?case
  proof (cases "registerServer m c orc")
    case (Inl err)
    then show ?thesis using e by simp
  next
    case (Inr orc')
    then have "servers orc' n = servers orc n"
      using Cons.prems e by (elim registerServer_Inr) auto
    then show ?thesis using Cons e Inr by simp
  qed
qed

lemma register_more_functions:
  "set (allFunctions orc) \<subseteq> set (allFunctions (snd (registerServersFromConfig orc later_entries)))"
proof (induction later_entries arbitrary: orc)
  case Nil
  then show ?case by simp
next
  case (Cons e later_entries)
  obtain m c where e: "e = (m, c)" by (cases e)
  show ?case
  proof (cases "registerServer m c orc")
    case (Inl err)
    then show ?thesis using e by simp
  next
    case (Inr orc')
    then have "set (allFunctions orc) \<subseteq> set (allFunctions orc')"
      by (elim registerServer_Inr) auto
    then show ?thesis using Cons [of orc'] e Inr by auto
  qed
qed

lemma resolve_prefix:
  assumes "f \<in> set (allFunctions orc)" and "fn_name f = n @ CHR ''_'' # x"
    and "CHR ''_'' \<notin> set n" and "servers orc n = Some s"
  shows "resolve orc (fn_name f) = Inr (s, x)"
proof -
  obtain g where g: "find (\<lambda>g. fn_name g = fn_name f) (allFunctions orc) = Some g"
    using assms(1) by (cases "find (\<lambda>g. fn_name g = fn_name f) (allFunctions orc)")
      (auto simp: find_None_iff)
  then have "fn_name g = n @ CHR ''_'' # x"
    using assms(2) by (auto simp: find_Some_iff)
  then show ?thesis
    using g assms(3,4) replace_prefix [of n "CHR ''_''" x]
    by (simp add: resolve_def hd_split)
qed

lemma resolve_unknown:
  "qn \<notin> fn_name ` set (allFunctions orc) \<Longrightarrow> resolve orc qn = Inl (UnknownToolError qn)"
proof -
  assume "qn \<notin> fn_name ` set (allFunctions orc)"
  then have "find (\<lambda>f. fn_name f = qn) (allFunctions orc) = None"
    by (auto simp: find_None_iff)
  then show ?thesis by (simp add: resolve_def)
qed

lemma resolve_registered:
  assumes reg: "registerServer n c orc = Inr orc1"
    and later: "orc2 = snd (registerServersFromConfig orc1 later_entries)"
    and fresh: "n \<notin> fst ` set later_entries"
    and plain: "plain_name n"
    and tools: "listTools c = Inr ts" and t: "t \<in> set ts"
  shows "resolve orc2 (qualifiedName n (nt_name t)) =
           Inr (\<lparr> srv_name = n, srv_client = c, srv_functions = map (make_function n) ts \<rparr>,
                sanitize (nt_name t))"
proof -
  let ?s = "\<lparr> srv_name = n, srv_client = c, srv_functions = map (make_function n) ts \<rparr>"
  have s1: "servers orc1 n = Some ?s" and f1: "make_function n t \<in> set (allFunctions orc1)"
    using reg tools t by (auto elim!: registerServer_Inr)
  have s2: "servers orc2 n = Some ?s"
    using s1 fresh later by (simp add: register_more_servers)
  have f2: "make_function n t \<in> set (allFunctions orc2)"
    using f1 later register_more_functions [of orc1 later_entries] by auto
  have nm: "fn_name (make_function n t) = n @ CHR ''_'' # sanitize (nt_name t)"
    using plain by (simp add: fn_name_make_function qualifiedName_plain)
  show ?thesis
    using resolve_prefix [OF f2 nm plain_no_sep [OF plain] s2] nm plain
    by (simp add: qualifiedName_plain)
qed

lemma distinct_new_names:
  assumes "plain_name n" "distinct (map (\<lambda>t. sanitize (nt_name t)) ts)"
  shows "distinct (map fn_name (map (make_function n) ts))"
proof -
  have "map fn_name (map (make_function n) ts)
          = map (\<lambda>x. n @ CHR ''_'' # x) (map (\<lambda>t. sanitize (nt_name t)) ts)"
    using assms(1) by (simp add: fn_name_make_function qualifiedName_plain)
  moreover have "inj (\<lambda>x. n @ CHR ''_'' # x)"
    by (simp add: inj_def)
  ultimately show ?thesis
    using assms(2) by (simp add: distinct_map inj_on_def)
qed

lemma register_all_distinct:
  assumes "distinct (map fst entries)"
    and "\<forall>(n, c) \<in> set entries. plain_name n \<and>
           (\<forall>ts. listTools c = Inr ts \<longrightarrow> distinct (map (\<lambda>t. sanitize (nt_name t)) ts))"
    and "distinct (map fn_name (allFunctions orc))"
    and "\<forall>f \<in> set (allFunctions orc). \<exists>n x. plain_name n \<and> n \<notin> fst ` set entries
           \<and> fn_name f = n @ CHR ''_'' # x"
  shows "distinct (map fn_name (allFunctions (snd (registerServersFromConfig orc entries))))"
  using assms
proof (induction entries arbitrary: orc)
  case Nil
  then show ?case by simp
next
  case (Cons e rest)
  obtain n c where e: "e = (n, c)" by (cases e)
  have plain: "plain_name n" using Cons.prems(2) e by simp
  have fresh: "n \<notin> fst ` set rest" using Cons.prems(1) e by (simp add: image_iff)
  show ?case
  proof (cases "registerServer n c orc")
    case (Inl err)
    then show ?thesis using e Cons.prems(3) by simp
  next
    case (Inr orc')
    then obtain ts where ts: "listTools c = Inr ts"
      and orc': "allFunctions orc' = allFunctions orc @ map (make_function n) ts"
      by (elim registerServer_Inr) simp
    have dts: "distinct (map (\<lambda>t. sanitize (nt_name t)) ts)"
      using Cons.prems(2) e ts by simp
    have new: "distinct (map fn_name (map (make_function n) ts))"
      using distinct_new_names [OF plain dts] .
    have disj: "fn_name ` set (allFunctions orc) \<inter> fn_name ` set (map (make_function n) ts) = {}"
    proof (rule ccontr)
      assume "\<not> ?thesis"
      then obtain f t where f: "f \<in> set (allFunctions orc)" and t: "t \<in> set ts"
        and eq: "fn_name f = fn_name (make_function n t)" by auto
      obtain m x where m: "plain_name m" "m \<notin> fst ` set (e # rest)" "fn_name f = m @ CHR ''_'' # x"
        using Cons.prems(4) f by blast
      have "m @ CHR ''_'' # x = n @ CHR ''_'' # sanitize (nt_name t)"
        using eq m(3) plain by (simp add: fn_name_make_function qualifiedName_plain)
      then have "m = n"
        using sep_cancel [of "CHR ''_''" m n x] plain_no_sep [OF m(1)] plain_no_sep [OF plain]
        by blast
      then show False using m(2) e by simp
    qed
    have d': "distinct (map fn_name (allFunctions orc'))"
      using Cons.prems(3) new disj by (simp add: orc' image_image)
    have p': "\<forall>f \<in> set (allFunctions orc'). \<exists>m x. plain_name m \<and> m \<notin> fst ` set rest
           \<and> fn_name f = m @ CHR ''_'' # x"
    proof
      fix f assume "f \<in> set (allFunctions orc')"
      then consider "f \<in> set (allFunctions orc)" | t where "t \<in> set ts" "f = make_function n t"
        by (auto simp: orc')
      then show "\<exists>m x. plain_name m \<and> m \<notin> fst ` set rest \<and> fn_name f = m @ CHR ''_'' # x"
      proof cases
        case 1
        then obtain m x where "plain_name m" "m \<notin> fst ` set (e # rest)" "fn_name f = m @ CHR ''_'' # x"
          using Cons.prems(4) by blast
        then show ?thesis by auto
      next
        case 2
        then have "fn_name f = n @ CHR ''_'' # sanitize (nt_name t)"
          using plain by (simp add: fn_name_make_function qualifiedName_plain)
        then show ?thesis using plain fresh by blast
      qed
    qed
    have "distinct (map fn_name (allFunctions (snd (registerServersFromConfig orc' rest))))"
    proof (rule Cons.IH [OF _ _ d' p'])
      show "distinct (map fst rest)" using Cons.prems(1) by simp
      show "\<forall>(n, c) \<in> set rest. plain_name n \<and>
           (\<forall>ts. listTools c = Inr ts \<longrightarrow> distinct (map (\<lambda>t. sanitize (nt_name t)) ts))"
        using Cons.prems(2) by simp
    qed
    then show ?thesis using e Inr by simp
  qed
qed

lemma dispatch_success:
  "map (invoke P orc) tcs = map Inr outs \<Longrightarrow>
   dispatch P orc tcs r =
     (None, r\<lparr> messages := messages r @ appended tcs outs, calls := calls r @ map fst outs \<rparr>)"
proof (induction tcs arbitrary: r outs)
  case Nil
  then show ?case by (simp add: appended_def)
next
  case (Cons tc tcs)
  then obtain out outs' where outs: "outs = out # outs'"
    and out: "invoke P orc tc = Inr out" and rest: "map (invoke P orc) tcs = map Inr outs'"
    by (cases outs) auto
  from out obtain server toolName args tr where
    a: "resolve orc (tc_name tc) = Inr (server, toolName)" and
    b: "P (tc_arguments tc) = Some args" and
    c: "callTool (srv_client server) toolName args = Inr tr" and
    d: "out = ((srv_name server, toolName, args), result_content tr)"
    by (auto simp: invoke_def split: sum.splits option.splits)
  show ?case
    using a b c d outs Cons.IH [OF rest] by (simp add: appended_def)
qed

lemma dispatch_append:
  "dispatch P orc (xs @ ys) r =
     (case dispatch P orc xs r of (None, r') \<Rightarrow> dispatch P orc ys r' | (Some e, r') \<Rightarrow> (Some e, r'))"
  by (induction xs arbitrary: r) (auto simp: Let_def split: sum.splits option.splits prod.splits)

lemma dispatch_requests: "requests (snd (dispatch P orc tcs r)) = requests r"
  by (induction tcs arbitrary: r) (auto simp: Let_def split: sum.splits option.splits prod.splits)

lemma dispatch_tool_origin:
  assumes "set tcs \<subseteq> S"
    and "\<forall>m \<in> set (messages r). role m = Tool \<longrightarrow>
           (\<exists>tc server toolName args tr. tc \<in> S
              \<and> resolve orc (tc_name tc) = Inr (server, toolName)
              \<and> P (tc_arguments tc) = Some args
              \<and> callTool (srv_client server) toolName args = Inr tr
              \<and> m = tool_message tc (result_content tr))"
  shows "\<forall>m \<in> set (messages (snd (dispatch P orc tcs r))). role m = Tool \<longrightarrow>
           (\<exists>tc server toolName args tr. tc \<in> S
              \<and> resolve orc (tc_name tc) = Inr (server, toolName)
              \<and> P (tc_arguments tc) = Some args
              \<and> callTool (srv_client server) toolName args = Inr tr
              \<and> m = tool_message tc (result_content tr))"
  using assms
proof (induction tcs arbitrary: r)
  case Nil
  then show ?case by simp
next
  case (Cons tc tcs)
  show ?case
  proof (cases "invoke P orc tc")
    case (Inl e)
    then have "messages (snd (dispatch P orc (tc # tcs) r)) = messages r"
      by (auto simp: invoke_def Let_def split: sum.splits option.splits prod.splits)
    then show ?thesis using Cons.prems(2) by simp
  next
    case (Inr out)
    then obtain server toolName args tr where
      a: "resolve orc (tc_name tc) = Inr (server, toolName)" and
      b: "P (tc_arguments tc) = Some args" and
      c: "callTool (srv_client server) toolName args = Inr tr"
      by (auto simp: invoke_def split: sum.splits option.splits)
    let ?r = "r\<lparr> calls := calls r @ [(srv_name server, toolName, args)],
                messages := messages r @ [assistant_message tc, tool_message tc (result_content tr)] \<rparr>"
    have tcS: "tc \<in> S" and rest: "set tcs \<subseteq> S" using Cons.prems(1) by auto
    have new: "\<exists>tc' server toolName args tr'. tc' \<in> S
              \<and> resolve orc (tc_name tc') = Inr (server, toolName)
              \<and> P (tc_arguments tc') = Some args
              \<and> callTool (srv_client server) toolName args = Inr tr'
              \<and> tool_message tc (result_content tr) = tool_message tc' (result_content tr')"
      using a b c tcS by blast
    have asst: "role (assistant_message tc) \<noteq> Tool" by (simp add: assistant_message_def)
    have "\<forall>m \<in> set (messages ?r). role m = Tool \<longrightarrow>
           (\<exists>tc server toolName args tr. tc \<in> S
              \<and> resolve orc (tc_name tc) = Inr (server, toolName)
              \<and> P (tc_arguments tc) = Some args
              \<and> callTool (srv_client server) toolName args = Inr tr
              \<and> m = tool_message tc (result_content tr))"
      using Cons.prems(2) new asst by auto
    from Cons.IH [OF rest this] show ?thesis using a b c by simp
  qed
qed

lemma processQuery_direct:
  assumes "llm orc (first_request orc q) = Inr result" "choices result = response # others"
    and "rm_tool_calls response = None \<or> rm_tool_calls response = Some []"
  shows "processQuery P orc q = (Inr (content_or_empty response), start_run orc q)"
  using assms by (auto simp: processQuery_def first_request_def start_run_def Let_def)

lemma processQuery_dispatch:
  assumes "llm orc (first_request orc q) = Inr result" "choices result = response # others"
    and "rm_tool_calls response = Some tcs" "tcs \<noteq> []"
    and "dispatch P orc tcs (start_run orc q) = (eo, r2)"
  shows "processQuery P orc q =
    (case eo of
       Some e \<Rightarrow> (Inl e, r2)
     | None \<Rightarrow>
        ((case llm orc (bare_request (messages r2)) of
            Inl e \<Rightarrow> Inl e
          | Inr final \<Rightarrow> (case choices final of [] \<Rightarrow> Inl TypeError
                                               | m # _ \<Rightarrow> Inr (content_or_empty m))),
         r2\<lparr> requests := requests r2 @ [bare_request (messages r2)] \<rparr>))"
proof -
  obtain tc rest where tcs: "tcs = tc # rest" using assms(4) by (cases tcs) auto
  have d: "dispatch P orc (tc # rest)
             \<lparr> messages = seed orc q,
               requests = [\<lparr> req_messages = seed orc q, req_tools = Some (allFunctions orc),
                             req_tool_choice = Some Auto \<rparr>],
               calls = [] \<rparr> = (eo, r2)"
    using assms(5) tcs by (simp add: start_run_def first_request_def)
  have l: "llm orc \<lparr> req_messages = seed orc q, req_tools = Some (allFunctions orc),
                      req_tool_choice = Some Auto \<rparr> = Inr result"
    using assms(1) by (simp add: first_request_def)
  show ?thesis
    unfolding processQuery_def Let_def l
    using assms(2,3) tcs
    by (simp add: d bare_request_def del: dispatch.simps split: option.splits sum.splits list.splits)
qed

lemma processQuery_requests_le: "length (requests (snd (processQuery P orc q))) \<le> 2"
proof -
  have "\<And>tcs. requests (snd (dispatch P orc tcs (start_run orc q))) = [first_request orc q]"
    by (simp add: dispatch_requests start_run_def)
  then have *: "\<And>tcs eo r2. dispatch P orc tcs
             \<lparr> messages = seed orc q,
               requests = [\<lparr> req_messages = seed orc q, req_tools = Some (allFunctions orc),
                             req_tool_choice = Some Auto \<rparr>],
               calls = [] \<rparr> = (eo, r2) \<Longrightarrow> length (requests r2) = 1"
    unfolding start_run_def first_request_def by (metis length_Cons list.size(3) snd_conv One_nat_def)
  show ?thesis
    unfolding processQuery_def Let_def
    by (auto simp del: dispatch.simps split: option.splits sum.splits list.splits prod.splits dest!: *)
qed

lemma start_run_simps:
  "messages (start_run orc q) = seed orc q"
  "requests (start_run orc q) = [first_request orc q]"
  "calls (start_run orc q) = []"
  by (simp_all add: start_run_def)

lemma processQuery_success:
  assumes "llm orc (first_request orc q) = Inr result" "choices result = response # others"
    and "rm_tool_calls response = Some tcs" "tcs \<noteq> []"
    and "map (invoke P orc) tcs = map Inr outs"
  shows "snd (processQuery P orc q) =
           \<lparr> messages = seed orc q @ appended tcs outs,
             requests = [first_request orc q, bare_request (seed orc q @ appended tcs outs)],
             calls = map fst outs \<rparr>"
    and "fst (processQuery P orc q) =
           (case llm orc (bare_request (seed orc q @ appended tcs outs)) of
              Inl e \<Rightarrow> Inl e
            | Inr final \<Rightarrow> (case choices final of [] \<Rightarrow> Inl TypeError
                                                 | m # _ \<Rightarrow> Inr (content_or_empty m)))"
  using processQuery_dispatch [OF assms(1-4) dispatch_success [OF assms(5)]]
  by (simp_all add: start_run_simps start_run_def)

lemma register_cons_ok:
  assumes "connect c = None" "listTools c = Inr ts"
  shows "\<exists>orc1. registerServer n c orc = Inr orc1 \<and>
           snd (registerServersFromConfig orc ((n, c) # later_entries))
             = snd (registerServersFromConfig orc1 later_entries)"
  using registerServer_ok [OF assms, of n orc] by simp

lemma processQuery_requests:
  "requests (snd (processQuery P orc q)) = [first_request orc q]
   \<or> requests (snd (processQuery P orc q))
       = [first_request orc q, bare_request (messages (snd (processQuery P orc q)))]"
proof -
  have *: "\<And>tcs eo r2. dispatch P orc tcs
             \<lparr> messages = seed orc q,
               requests = [\<lparr> req_messages = seed orc q, req_tools = Some (allFunctions orc),
                             req_tool_choice = Some Auto \<rparr>],
               calls = [] \<rparr> = (eo, r2) \<Longrightarrow> requests r2 = [first_request orc q]"
  proof -
    fix tcs eo r2
    assume "dispatch P orc tcs
             \<lparr> messages = seed orc q,
               requests = [\<lparr> req_messages = seed orc q, req_tools = Some (allFunctions orc),
                             req_tool_choice = Some Auto \<rparr>],
               calls = [] \<rparr> = (eo, r2)"
    then have "r2 = snd (dispatch P orc tcs (start_run orc q))"
      by (simp add: start_run_def first_request_def)
    then show "requests r2 = [first_request orc q]"
      by (simp add: dispatch_requests start_run_simps)
  qed
  show ?thesis
    unfolding processQuery_def Let_def
    by (auto simp: first_request_def bare_request_def simp del: dispatch.simps
        split: option.splits sum.splits list.splits prod.splits dest!: *)
qed

lemma length_appended:
  "length tcs = length outs \<Longrightarrow> length (appended tcs outs) = 2 * length tcs"
  unfolding appended_def by (induction tcs outs rule: list_induct2) simp_all

lemma invoke_all_length: "map (invoke P orc) tcs = map Inr outs \<Longrightarrow> length tcs = length outs"
  by (metis length_map)

lemma invoke_unknown:
  "tc_name tc \<notin> fn_name ` set (allFunctions orc) \<Longrightarrow>
   dispatch P orc (tc # post) r = (Some (UnknownToolError (tc_name tc)), r)"
  by (simp add: resolve_unknown)

lemma processQuery_history:
  "messages (snd (processQuery P orc q)) = seed orc q
   \<or> (\<exists>result response others tcs.
         llm orc (first_request orc q) = Inr result \<and> choices result = response # others
         \<and> rm_tool_calls response = Some tcs
         \<and> messages (snd (processQuery P orc q))
             = messages (snd (dispatch P orc tcs (start_run orc q))))"
proof -
  have *: "\<And>tcs eo r2. dispatch P orc tcs
             \<lparr> messages = seed orc q,
               requests = [\<lparr> req_messages = seed orc q, req_tools = Some (allFunctions orc),
                             req_tool_choice = Some Auto \<rparr>],
               calls = [] \<rparr> = (eo, r2) \<Longrightarrow> r2 = snd (dispatch P orc tcs (start_run orc q))"
    by (simp add: start_run_def first_request_def)
  show ?thesis
    unfolding processQuery_def Let_def first_request_def
    by (auto simp del: dispatch.simps
        split: option.splits sum.splits list.splits prod.splits dest!: *)
qed

text \<open>The defining equations that evaluate the concrete orchestrators and their runs.\<close>

lemmas demo_defs = demo_def demo_entries_def new_orchestrator_def registerServer_def
  files_client_def math_client_def plain_tool_def static_client_def make_function_def
  qualifiedName_def sanitize_def safe_char_def template_str_def Let_def

lemmas run_defs = processQuery_def resolve_def demo_parse_def seed_def content_or_empty_def
  first_request_def bare_request_def invoke_def appended_def assistant_message_def
  tool_message_def result_content_def nullish_def quote_def hex_digit_def
  call_add_def call_read_def call_void_def call_mul_def tool_response_def text_response_def
  add_text_def add_args_def

section \<open>The claims\<close>

subsection \<open>C1: rounds of model call and tool dispatch\<close>

text \<open>
  C1, as amended. A query makes at most two model calls, hence at most one round of
  tool dispatch. If the first response has no tool calls (the field is missing or
  empty), the query ends with that response's content and the run is the initial one.
  If it has tool calls and each of them is invoked with success, exactly one more
  model call is made and the query ends with the content of that second response,
  whether or not the second response holds tool calls; the tool invocations made are
  those of the first response, once each.
\<close>

theorem processQuery_single_dispatch_round:
  "length (requests (snd (processQuery P orc q))) \<le> 2
   \<and> (llm orc (first_request orc q) = Inr result \<and> choices result = response # others
        \<and> (rm_tool_calls response = None \<or> rm_tool_calls response = Some [])
      \<longrightarrow> processQuery P orc q = (Inr (content_or_empty response), start_run orc q))
   \<and> (llm orc (first_request orc q) = Inr result \<and> choices result = response # others
        \<and> rm_tool_calls response = Some tcs \<and> tcs \<noteq> []
        \<and> map (invoke P orc) tcs = map Inr outs
        \<and> llm orc (bare_request (seed orc q @ appended tcs outs)) = Inr final
        \<and> choices final = m # rest
      \<longrightarrow> fst (processQuery P orc q) = Inr (content_or_empty m)
         \<and> calls (snd (processQuery P orc q)) = map fst outs
         \<and> length (requests (snd (processQuery P orc q))) = 2)"
proof (intro conjI impI)
  show "length (requests (snd (processQuery P orc q))) \<le> 2"
    by (rule processQuery_requests_le)
next
  assume "llm orc (first_request orc q) = Inr result \<and> choices result = response # others
        \<and> (rm_tool_calls response = None \<or> rm_tool_calls response = Some [])"
  then show "processQuery P orc q = (Inr (content_or_empty response), start_run orc q)"
    using processQuery_direct by blast
next
  assume a: "llm orc (first_request orc q) = Inr result \<and> choices result = response # others
        \<and> rm_tool_calls response = Some tcs \<and> tcs \<noteq> []
        \<and> map (invoke P orc) tcs = map Inr outs
        \<and> llm orc (bare_request (seed orc q @ appended tcs outs)) = Inr final
        \<and> choices final = m # rest"
  then have s: "snd (processQuery P orc q) =
           \<lparr> messages = seed orc q @ appended tcs outs,
             requests = [first_request orc q, bare_request (seed orc q @ appended tcs outs)],
             calls = map fst outs \<rparr>"
    using processQuery_success(1) by blast
  show "fst (processQuery P orc q) = Inr (content_or_empty m)"
    using a processQuery_success(2) [of orc q result response others tcs P outs] by simp
  show "calls (snd (processQuery P orc q)) = map fst outs" by (simp add: s)
  show "length (requests (snd (processQuery P orc q))) = 2" by (simp add: s)
qed

text \<open>
  The theorem at the model that asks for \<^verbatim>\<open>math_add\<close> in every response: the second
  response asks for the tool again, and the query ends with its (missing) content
  after the one invocation of the first round.
\<close>

theorem processQuery_single_dispatch_round_witness:
  "llm (demo llm_always) (first_request (demo llm_always) ''q'') = Inr (tool_response [call_add])
   \<and> map (invoke demo_parse (demo llm_always)) [call_add]
      = map Inr [((''math'', ''add'', add_args), ''4'')]
   \<and> llm (demo llm_always)
        (bare_request (seed (demo llm_always) ''q'' @
           appended [call_add] [((''math'', ''add'', add_args), ''4'')]))
      = Inr (tool_response [call_add])
   \<and> fst (processQuery demo_parse (demo llm_always) ''q'') = Inr []
   \<and> calls (snd (processQuery demo_parse (demo llm_always) ''q''))
      = [(''math'', ''add'', add_args)]"
proof -
  have h1: "llm (demo llm_always) (first_request (demo llm_always) ''q'')
      = Inr (tool_response [call_add])"
    by (simp add: demo_defs llm_always_def)
  have h2: "map (invoke demo_parse (demo llm_always)) [call_add]
      = map Inr [((''math'', ''add'', add_args), ''4'')]"
    by (simp add: demo_defs run_defs)
  have h3: "llm (demo llm_always)
        (bare_request (seed (demo llm_always) ''q'' @
           appended [call_add] [((''math'', ''add'', add_args), ''4'')]))
      = Inr (tool_response [call_add])"
    by (simp add: demo_defs llm_always_def)
  have h4: "choices (tool_response [call_add])
      = [\<lparr> rm_content = None, rm_tool_calls = Some [call_add] \<rparr>]"
    by (simp add: tool_response_def)
  show ?thesis
    using h1 h2 h3 h4
      processQuery_single_dispatch_round [of demo_parse "demo llm_always" "''q''"
        "tool_response [call_add]"
        "\<lparr> rm_content = None, rm_tool_calls = Some [call_add] \<rparr>" "[]" "[call_add]"
        "[((''math'', ''add'', add_args), ''4'')]"
        "tool_response [call_add]"
        "\<lparr> rm_content = None, rm_tool_calls = Some [call_add] \<rparr>" "[]"]
    by (simp add: content_or_empty_def)
qed

text \<open>
  C1 as stated fails: the model below asks for a tool in its first and in its second
  response, so two rounds of dispatch would have to happen and the query could not end
  on the second response. The code ends there, after one invocation and two model
  calls.
\<close>

theorem processQuery_second_round_counterexample:
  "llm_always (bare_request (messages (snd (processQuery demo_parse (demo llm_always) ''q''))))
      = Inr \<lparr> choices = [\<lparr> rm_content = None, rm_tool_calls = Some [call_add] \<rparr>] \<rparr>
   \<and> fst (processQuery demo_parse (demo llm_always) ''q'') = Inr []
   \<and> length (calls (snd (processQuery demo_parse (demo llm_always) ''q''))) = 1
   \<and> length (requests (snd (processQuery demo_parse (demo llm_always) ''q''))) = 2"
  by (simp add: demo_defs run_defs llm_always_def)

subsection \<open>C2: uniqueness of qualified names\<close>

text \<open>
  C2, as amended. Take any sequence of registrations into a fresh orchestrator in which
  the server names are pairwise distinct and made of letters, digits and \<^verbatim>\<open>-\<close> only,
  and in which the native tool names of each server are pairwise distinct after
  sanitization. Then the qualified names of the flattened tool list are pairwise
  distinct, whatever characters the native tool names hold and also when two servers
  expose a tool of the same native name.
\<close>

theorem qualifiedName_distinct_plain_servers:
  assumes "distinct (map fst entries)"
    and "list_all (\<lambda>(n, c). plain_name n \<and>
           (case listTools c of Inl e \<Rightarrow> True
            | Inr ts \<Rightarrow> distinct (map (\<lambda>t. sanitize (nt_name t)) ts))) entries"
  shows "distinct (map fn_name
           (allFunctions (snd (registerServersFromConfig (new_orchestrator l p) entries))))"
proof (rule register_all_distinct [OF assms(1)])
  show "\<forall>(n, c) \<in> set entries. plain_name n \<and>
          (\<forall>ts. listTools c = Inr ts \<longrightarrow> distinct (map (\<lambda>t. sanitize (nt_name t)) ts))"
    using assms(2) by (auto simp: list_all_iff)
  show "distinct (map fn_name (allFunctions (new_orchestrator l p)))"
    by (simp add: new_orchestrator_def)
  show "\<forall>f \<in> set (allFunctions (new_orchestrator l p)).
          \<exists>n x. plain_name n \<and> n \<notin> fst ` set entries \<and> fn_name f = n @ CHR ''_'' # x"
    by (simp add: new_orchestrator_def)
qed

text \<open>The theorem at the servers \<^verbatim>\<open>files\<close> and \<^verbatim>\<open>math\<close>, which both expose \<^verbatim>\<open>read\<close>.\<close>

theorem qualifiedName_distinct_plain_servers_witness:
  "distinct (map fst demo_entries)
   \<and> list_all (\<lambda>(n, c). plain_name n \<and>
           (case listTools c of Inl e \<Rightarrow> True
            | Inr ts \<Rightarrow> distinct (map (\<lambda>t. sanitize (nt_name t)) ts))) demo_entries
   \<and> map fn_name (allFunctions (demo llm_tools)) = [''files_read'', ''math_read'', ''math_add'']
   \<and> distinct (map fn_name (allFunctions (demo llm_tools)))"
proof -
  have h1: "distinct (map fst demo_entries)"
    by (simp add: demo_entries_def)
  have h2: "list_all (\<lambda>(n, c). plain_name n \<and>
           (case listTools c of Inl e \<Rightarrow> True
            | Inr ts \<Rightarrow> distinct (map (\<lambda>t. sanitize (nt_name t)) ts))) demo_entries"
    by (simp add: demo_defs plain_name_def)
  have h3: "map fn_name (allFunctions (demo llm_tools)) = [''files_read'', ''math_read'', ''math_add'']"
    by (simp add: demo_defs)
  show ?thesis
    using h1 h2 h3 qualifiedName_distinct_plain_servers [OF h1 h2, of llm_tools "''You are Bixby''"]
    by (simp add: demo_def)
qed

text \<open>
  C2 as stated fails: the servers \<^verbatim>\<open>a\<close>, with the tool \<^verbatim>\<open>b_c\<close>, and \<^verbatim>\<open>a_b\<close>, with the
  tool \<^verbatim>\<open>c\<close>, register two different descriptors under the one name \<^verbatim>\<open>a_b_c\<close>.
\<close>

theorem qualifiedName_collision_counterexample:
  "map fn_name (allFunctions colliding) = [''a_b_c'', ''a_b_c'']
   \<and> map fn_description (allFunctions colliding) = [''[a] undefined'', ''[a_b] undefined'']
   \<and> distinct (allFunctions colliding)
   \<and> \<not> distinct (map fn_name (allFunctions colliding))"
  by (simp add: colliding_def demo_defs)

subsection \<open>C3: the server a qualified name resolves to\<close>

text \<open>
  C3, as amended. Let a server be registered under a name made of letters, digits and
  \<^verbatim>\<open>-\<close> only, in any registry, and let any servers of other names be registered after
  it. Then the qualified name of each descriptor it contributed resolves to the binding
  that registration stored (its name, its client, its descriptors), together with the
  sanitized native tool name.
\<close>

theorem resolve_contributing_server:
  assumes "connect c = None" and "listTools c = Inr ts" and "t \<in> set ts"
    and "plain_name n" and "n \<notin> fst ` set later_entries"
  shows "resolve (snd (registerServersFromConfig orc ((n, c) # later_entries)))
             (fn_name (make_function n t))
           = Inr (\<lparr> srv_name = n, srv_client = c, srv_functions = map (make_function n) ts \<rparr>,
                  sanitize (nt_name t))"
proof -
  obtain orc1 where r: "registerServer n c orc = Inr orc1"
    and s: "snd (registerServersFromConfig orc ((n, c) # later_entries))
             = snd (registerServersFromConfig orc1 later_entries)"
    using register_cons_ok [OF assms(1,2)] by blast
  show ?thesis
    using resolve_registered [OF r refl assms(5,4,2,3)] s
    by (simp add: fn_name_make_function)
qed

text \<open>The theorem at the server \<^verbatim>\<open>files\<close>, registered before \<^verbatim>\<open>math\<close>.\<close>

theorem resolve_contributing_server_witness:
  "connect files_client = None
   \<and> listTools files_client = Inr [\<lparr> nt_name = ''read'',
          nt_description = Some ''reads a file'', nt_inputSchema = JObj [] \<rparr>]
   \<and> plain_name ''files''
   \<and> ''files'' \<notin> fst ` set [(''math'', math_client)]
   \<and> map_sum id (\<lambda>(s, tn). (srv_name s, tn)) (resolve (demo llm_tools) ''files_read'')
        = Inr (''files'', ''read'')
   \<and> map_sum id (\<lambda>(s, tn). (srv_name s, tn)) (resolve (demo llm_tools) ''math_read'')
        = Inr (''math'', ''read'')"
proof -
  have f1: "connect files_client = None" by (simp add: files_client_def)
  have f2: "listTools files_client = Inr [\<lparr> nt_name = ''read'',
              nt_description = Some ''reads a file'', nt_inputSchema = JObj [] \<rparr>]"
    by (simp add: files_client_def)
  have p1: "plain_name ''files''" by (simp add: plain_name_def safe_char_def)
  have l1: "''files'' \<notin> fst ` set [(''math'', math_client)]" by simp
  have d: "demo llm_tools = snd (registerServersFromConfig
             (new_orchestrator llm_tools ''You are Bixby'')
             ((''files'', files_client) # [(''math'', math_client)]))"
    by (simp add: demo_def demo_entries_def)
  have a: "resolve (demo llm_tools)
             (fn_name (make_function ''files'' \<lparr> nt_name = ''read'',
                nt_description = Some ''reads a file'', nt_inputSchema = JObj [] \<rparr>))
           = Inr (\<lparr> srv_name = ''files'', srv_client = files_client,
                    srv_functions = map (make_function ''files'') [\<lparr> nt_name = ''read'',
                       nt_description = Some ''reads a file'', nt_inputSchema = JObj [] \<rparr>] \<rparr>,
                  sanitize (nt_name \<lparr> nt_name = ''read'',
                       nt_description = Some ''reads a file'', nt_inputSchema = JObj [] \<rparr>))"
    unfolding d
    by (rule resolve_contributing_server [OF f1 f2 _ p1 l1]) simp
  have n1: "fn_name (make_function ''files'' \<lparr> nt_name = ''read'',
                nt_description = Some ''reads a file'', nt_inputSchema = JObj [] \<rparr>) = ''files_read''"
    by (simp add: make_function_def qualifiedName_def sanitize_def safe_char_def)
  have s: "sanitize ''read'' = ''read''" by (simp add: sanitize_def safe_char_def)
  have b: "map_sum id (\<lambda>(s, tn). (srv_name s, tn)) (resolve (demo llm_tools) ''math_read'')
        = Inr (''math'', ''read'')"
    by (simp add: demo_defs resolve_def)
  show ?thesis
    using a b f1 f2 p1 l1 by (simp add: n1 s)
qed

text \<open>
  C3 as stated fails for a server with \<^verbatim>\<open>_\<close> in its name: the tool \<^verbatim>\<open>t\<close> of the
  registered server \<^verbatim>\<open>my_server\<close> resolves to no server when \<^verbatim>\<open>my_server\<close> stands
  alone, and to the server \<^verbatim>\<open>my\<close> when one of that name is registered too.
\<close>

theorem resolve_underscore_server_counterexample:
  "map fn_name (allFunctions underscored) = [''my_server_t'']
   \<and> map_option srv_name (servers underscored ''my_server'') = Some ''my_server''
   \<and> resolve underscored ''my_server_t'' = Inl (UnknownServerError ''my'')
   \<and> map fn_name (allFunctions underscored_pair) = [''my_u'', ''my_server_t'']
   \<and> map_option srv_name (servers underscored_pair ''my_server'') = Some ''my_server''
   \<and> map_sum id (\<lambda>(s, tn). (srv_name s, tn)) (resolve underscored_pair ''my_server_t'')
        = Inr (''my'', ''server_t'')"
  by (simp add: underscored_def underscored_pair_def demo_defs resolve_def)

subsection \<open>C4: what the provider adapters report\<close>

text \<open>
  C4 asks that the normalized response carry exactly the tool calls the provider
  produced, and none only if none were produced. The Claude adapter breaks this, where
  the GPT adapter hands the native tool calls on: for a native response that holds one
  \<^verbatim>\<open>tool_use\<close> block and no text, and for every request, the response of
  \<^verbatim>\<open>Claude.chat\<close> has the empty content and an empty list of tool calls.
\<close>

theorem Claude_chat_drops_tool_use:
  "Claude_chat anthropic_tool_use req
     = Inr \<lparr> choices = [\<lparr> rm_content = Some [], rm_tool_calls = Some [] \<rparr>] \<rparr>"
  by (simp add: Claude_chat_def anthropic_tool_use_def tool_use_block_def isTextBlock_def)

subsection \<open>C5: the arguments of the model calls\<close>

text \<open>
  C5, as amended. The first model call of a query is made with the two seed messages,
  the complete flattened tool set and the tool choice \<^verbatim>\<open>auto\<close>. Every later model call
  of the query (there is at most one) is made with the full message history and with
  neither a tool set nor a tool choice; the GPT adapter then sends the provider its
  defaults, an empty tool list and the tool choice \<^verbatim>\<open>auto\<close>.
\<close>

theorem model_call_arguments:
  "hd (requests (snd (processQuery P orc q)))
     = \<lparr> req_messages = seed orc q, req_tools = Some (allFunctions orc),
         req_tool_choice = Some Auto \<rparr>
   \<and> list_all (\<lambda>req. req = \<lparr> req_messages = messages (snd (processQuery P orc q)),
                              req_tools = None, req_tool_choice = None \<rparr>)
        (tl (requests (snd (processQuery P orc q))))
   \<and> GPT_chat create \<lparr> req_messages = ms, req_tools = None, req_tool_choice = None \<rparr>
     = create \<lparr> o_model = ''gpt-4-1106-preview'', o_messages = ms, o_tools = [],
                o_tool_choice = Auto \<rparr>"
  using processQuery_requests [of P orc q]
  by (auto simp: first_request_def bare_request_def GPT_chat_def)

text \<open>The theorem at the query that asks for \<^verbatim>\<open>math_add\<close> once: its second model call
  exists and has that shape.\<close>

theorem model_call_arguments_witness:
  "tl (requests (snd (processQuery demo_parse (demo llm_single) ''what is 2+2'')))
     = [\<lparr> req_messages = messages (snd (processQuery demo_parse (demo llm_single) ''what is 2+2'')),
          req_tools = None, req_tool_choice = None \<rparr>]
   \<and> length (messages (snd (processQuery demo_parse (demo llm_single) ''what is 2+2''))) = 4
   \<and> fst (processQuery demo_parse (demo llm_single) ''what is 2+2'') = Inr ''The answer is 4''"
proof -
  have "length (requests (snd (processQuery demo_parse (demo llm_single) ''what is 2+2''))) = 2"
    by (simp add: demo_defs run_defs llm_single_def)
  then obtain a b where
    ab: "requests (snd (processQuery demo_parse (demo llm_single) ''what is 2+2'')) = [a, b]"
    by (auto simp: length_Suc_conv numeral_2_eq_2)
  have "b = \<lparr> req_messages = messages (snd (processQuery demo_parse (demo llm_single) ''what is 2+2'')),
          req_tools = None, req_tool_choice = None \<rparr>"
    using model_call_arguments [of demo_parse "demo llm_single" "''what is 2+2''"] ab by simp
  moreover have "length (messages (snd (processQuery demo_parse (demo llm_single) ''what is 2+2''))) = 4"
    by (simp add: demo_defs run_defs llm_single_def)
  moreover have "fst (processQuery demo_parse (demo llm_single) ''what is 2+2'') = Inr ''The answer is 4''"
    by (simp add: demo_defs run_defs llm_single_def)
  ultimately show ?thesis using ab by simp
qed

text \<open>
  C5 as stated fails in the second round: with three tools registered, the second
  model call passes no tool set and no tool choice.
\<close>

theorem second_model_call_counterexample:
  "map req_tools (requests (snd (processQuery demo_parse (demo llm_single) ''what is 2+2'')))
     = [Some (allFunctions (demo llm_single)), None]
   \<and> map req_tool_choice (requests (snd (processQuery demo_parse (demo llm_single) ''what is 2+2'')))
     = [Some Auto, None]
   \<and> map fn_name (allFunctions (demo llm_single)) = [''files_read'', ''math_read'', ''math_add'']"
  by (simp add: demo_defs run_defs llm_single_def)

subsection \<open>C6: registration under a name already in use\<close>

text \<open>
  C6, as amended. A registration fails only with the exception the connection throws
  while connecting or listing its tools. Under a name that is already registered, a
  registration whose connection works succeeds: the name's entry of the server map is
  replaced by the new binding and the new descriptors are appended to the flattened
  tool list, where the descriptors of the replaced binding stay.
\<close>

theorem registerServer_overwrites:
  "(registerServer name c orc = Inl e \<longrightarrow>
      connect c = Some e \<or> (connect c = None \<and> listTools c = Inl e))
   \<and> (name \<in> dom (servers orc) \<and> connect c = None \<and> listTools c = Inr ts \<longrightarrow>
      registerServer name c orc =
        Inr (orc\<lparr> servers := (servers orc)(name \<mapsto>
                     \<lparr> srv_name = name, srv_client = c,
                       srv_functions = map (make_function name) ts \<rparr>),
                  allFunctions := allFunctions orc @ map (make_function name) ts \<rparr>))"
  by (auto simp: registerServer_def Let_def split: option.splits sum.splits)

text \<open>The theorem at a second registration of \<^verbatim>\<open>math\<close>, now with the one tool
  \<^verbatim>\<open>sub\<close>.\<close>

theorem registerServer_overwrites_witness:
  "''math'' \<in> dom (servers (demo llm_tools))
   \<and> connect (static_client [plain_tool ''sub'']) = None
   \<and> listTools (static_client [plain_tool ''sub'']) = Inr [plain_tool ''sub'']
   \<and> map_sum id (\<lambda>orc. map fn_name (allFunctions orc))
        (registerServer ''math'' (static_client [plain_tool ''sub'']) (demo llm_tools))
      = Inr [''files_read'', ''math_read'', ''math_add'', ''math_sub'']"
proof -
  have h1: "''math'' \<in> dom (servers (demo llm_tools))" by (simp add: demo_defs)
  have h2: "connect (static_client [plain_tool ''sub'']) = None" by (simp add: static_client_def)
  have h3: "listTools (static_client [plain_tool ''sub'']) = Inr [plain_tool ''sub'']"
    by (simp add: static_client_def)
  have h4: "map fn_name (allFunctions (demo llm_tools)) = [''files_read'', ''math_read'', ''math_add'']"
    by (simp add: demo_defs)
  have h5: "fn_name (make_function ''math'' (plain_tool ''sub'')) = ''math_sub''"
    by (simp add: demo_defs)
  show ?thesis
    using h1 h2 h3 h4 h5
      registerServer_overwrites [of "''math''" "static_client [plain_tool ''sub'']" "demo llm_tools"
        "DuplicateServerError ''math''" "[plain_tool ''sub'']"]
    by simp
qed

text \<open>
  C6 as stated fails: \<^verbatim>\<open>math\<close> is registered, and registering it again raises no
  \<open>DuplicateServerError\<close> and changes both the server map and the flattened tool list.
\<close>

theorem registerServer_duplicate_counterexample:
  "map_option srv_name (servers (demo llm_tools) ''math'') = Some ''math''
   \<and> registerServer ''math'' (static_client [plain_tool ''sub'']) (demo llm_tools)
        \<noteq> Inl (DuplicateServerError ''math'')
   \<and> map_sum id (\<lambda>orc. map fn_name (allFunctions orc))
        (registerServer ''math'' (static_client [plain_tool ''sub'']) (demo llm_tools))
      = Inr [''files_read'', ''math_read'', ''math_add'', ''math_sub'']
   \<and> map_sum id (\<lambda>orc. map_option (\<lambda>s. map fn_name (srv_functions s)) (servers orc ''math''))
        (registerServer ''math'' (static_client [plain_tool ''sub'']) (demo llm_tools))
      = Inr (Some [''math_sub''])
   \<and> map_option (\<lambda>s. map fn_name (srv_functions s)) (servers (demo llm_tools) ''math'')
      = Some [''math_read'', ''math_add'']"
  by (simp add: demo_defs)

subsection \<open>C7: the tool name forwarded to the server\<close>

text \<open>
  C7, as amended. Let a server be registered under a name made of letters, digits and
  \<^verbatim>\<open>-\<close> only, with any servers of other names registered after it, let one of its
  tools have a native name made of letters, digits, \<^verbatim>\<open>_\<close> and \<^verbatim>\<open>-\<close> only, and let a
  tool call carry the qualified name of that tool and arguments that parse. Then the
  call goes to that server's connection with the native tool name and the parsed
  arguments, and it fails exactly when the connection fails.
\<close>

theorem dispatch_forwards_native_name:
  assumes "connect c = None" and "listTools c = Inr ts" and "t \<in> set ts"
    and "plain_name n" and "safe_name (nt_name t)" and "n \<notin> fst ` set later_entries"
    and "tc_name tc = fn_name (make_function n t)"
    and "P (tc_arguments tc) = Some args"
  shows "calls (snd (dispatch P (snd (registerServersFromConfig orc ((n, c) # later_entries)))
                   [tc] r))
           = calls r @ [(n, nt_name t, args)]
         \<and> fst (dispatch P (snd (registerServersFromConfig orc ((n, c) # later_entries))) [tc] r)
           = (case callTool c (nt_name t) args of Inl e \<Rightarrow> Some e | Inr tr \<Rightarrow> None)"
proof -
  obtain orc1 where r: "registerServer n c orc = Inr orc1"
    and s: "snd (registerServersFromConfig orc ((n, c) # later_entries))
             = snd (registerServersFromConfig orc1 later_entries)"
    using register_cons_ok [OF assms(1,2)] by blast
  have "resolve (snd (registerServersFromConfig orc ((n, c) # later_entries))) (tc_name tc)
          = Inr (\<lparr> srv_name = n, srv_client = c, srv_functions = map (make_function n) ts \<rparr>,
                 sanitize (nt_name t))"
    using resolve_registered [OF r refl assms(6,4,2,3)] s assms(7)
    by (simp add: fn_name_make_function)
  then show ?thesis
    using assms(8) by (auto simp: sanitize_safe [OF assms(5)] split: sum.splits)
qed

text \<open>The theorem at the tool \<^verbatim>\<open>read\<close> of the server \<^verbatim>\<open>files\<close>.\<close>

theorem dispatch_forwards_native_name_witness:
  "connect files_client = None
   \<and> listTools files_client = Inr [\<lparr> nt_name = ''read'',
          nt_description = Some ''reads a file'', nt_inputSchema = JObj [] \<rparr>]
   \<and> plain_name ''files'' \<and> safe_name ''read''
   \<and> ''files'' \<notin> fst ` set [(''math'', math_client)]
   \<and> tc_name call_read = ''files_read''
   \<and> demo_parse (tc_arguments call_read) = Some (JObj [])
   \<and> calls (snd (dispatch demo_parse (demo llm_tools) [call_read] (start_run (demo llm_tools) ''q'')))
        = [(''files'', ''read'', JObj [])]"
proof -
  let ?t = "\<lparr> nt_name = ''read'', nt_description = Some ''reads a file'',
              nt_inputSchema = JObj [] \<rparr>"
  have f1: "connect files_client = None" by (simp add: files_client_def)
  have f2: "listTools files_client = Inr [?t]" by (simp add: files_client_def)
  have p1: "plain_name ''files''" by (simp add: plain_name_def safe_char_def)
  have p2: "safe_name ''read''" by (simp add: safe_name_def safe_char_def)
  have l1: "''files'' \<notin> fst ` set [(''math'', math_client)]" by simp
  have n1: "tc_name call_read = fn_name (make_function ''files'' ?t)"
    by (simp add: call_read_def make_function_def qualifiedName_def sanitize_def safe_char_def)
  have n2: "tc_name call_read = ''files_read''" by (simp add: call_read_def)
  have a1: "demo_parse (tc_arguments call_read) = Some (JObj [])"
    by (simp add: call_read_def demo_parse_def)
  have d: "demo llm_tools = snd (registerServersFromConfig
             (new_orchestrator llm_tools ''You are Bixby'')
             ((''files'', files_client) # [(''math'', math_client)]))"
    by (simp add: demo_def demo_entries_def)
  have s: "sanitize ''read'' = ''read''" by (simp add: sanitize_def safe_char_def)
  note T = dispatch_forwards_native_name [where c = files_client and ts = "[?t]" and t = ?t
        and n = "''files''" and later_entries = "[(''math'', math_client)]"
        and tc = call_read and P = demo_parse and args = "JObj []"
        and orc = "new_orchestrator llm_tools ''You are Bixby''"
        and r = "start_run (demo llm_tools) ''q''", OF f1 f2 _ p1 _ l1 n1 a1]
  have "calls (snd (dispatch demo_parse
                 (snd (registerServersFromConfig (new_orchestrator llm_tools ''You are Bixby'')
                        ((''files'', files_client) # [(''math'', math_client)])))
                 [call_read] (start_run (demo llm_tools) ''q'')))
        = calls (start_run (demo llm_tools) ''q'') @ [(''files'', nt_name ?t, JObj [])]"
    by (rule T [THEN conjunct1]) (simp_all add: p2)
  then have "calls (snd (dispatch demo_parse (demo llm_tools) [call_read]
                 (start_run (demo llm_tools) ''q'')))
        = calls (start_run (demo llm_tools) ''q'') @ [(''files'', nt_name ?t, JObj [])]"
    by (simp only: d [symmetric])
  then show ?thesis
    using f1 f2 p1 p2 l1 n2 a1 by (simp add: s start_run_simps)
qed

text \<open>
  C7 as stated fails for a native name with a character outside the safe set: the
  server \<^verbatim>\<open>s\<close> lists the tool \<^verbatim>\<open>get.weather\<close>, the call of \<^verbatim>\<open>s_get_weather\<close> is
  forwarded as \<^verbatim>\<open>get_weather\<close>, and the server, which knows no tool of that name,
  fails the query.
\<close>

theorem dispatch_native_name_counterexample:
  "listTools weather_client = Inr [plain_tool ''get.weather'']
   \<and> map fn_name (allFunctions weather) = [''s_get_weather'']
   \<and> calls (snd (processQuery demo_parse weather ''q'')) = [(''s'', ''get_weather'', JObj [])]
   \<and> fst (processQuery demo_parse weather ''q'') = Inl (ServerError ''no such tool'')"
  by (simp add: weather_def weather_client_def llm_weather_def call_weather_def demo_defs run_defs)

subsection \<open>C8: a tool call of an unknown name\<close>

text \<open>
  C8, as amended. Let the first model response of a query, the one whose tool calls are
  dispatched, hold a tool call whose name is the name of no descriptor of the registry,
  and let the calls before it in that response succeed. Then the query fails with
  \<open>UnknownToolError\<close> for that name, no further model call is made, and the message
  history is what it was when the loop reached the call: the seed and the pairs of the
  calls before it, two messages for each, with no message for the failed call. If the
  failed call is the first one, the history is the seed.
\<close>

theorem unknown_tool_aborts_query:
  assumes "llm orc (first_request orc q) = Inr result" and "choices result = response # others"
    and "rm_tool_calls response = Some (pre @ tc # post)"
    and "map (invoke P orc) pre = map Inr outs"
    and "tc_name tc \<notin> fn_name ` set (allFunctions orc)"
  shows "processQuery P orc q =
           (Inl (UnknownToolError (tc_name tc)),
            \<lparr> messages = seed orc q @ appended pre outs,
              requests = [first_request orc q],
              calls = map fst outs \<rparr>)
         \<and> length (appended pre outs) = 2 * length pre"
proof -
  let ?r = "\<lparr> messages = seed orc q @ appended pre outs,
              requests = [first_request orc q],
              calls = map fst outs \<rparr>"
  have a: "dispatch P orc pre (start_run orc q) = (None, ?r)"
    using dispatch_success [OF assms(4), of "start_run orc q"] by (simp add: start_run_def)
  have "dispatch P orc (pre @ tc # post) (start_run orc q)
          = (Some (UnknownToolError (tc_name tc)), ?r)"
    unfolding dispatch_append a using invoke_unknown [OF assms(5)] by simp
  from processQuery_dispatch [OF assms(1-3) _ this]
  have p: "processQuery P orc q = (Inl (UnknownToolError (tc_name tc)), ?r)" by simp
  have "length (appended pre outs) = 2 * length pre"
    by (rule length_appended [OF invoke_all_length [OF assms(4)]])
  with p show ?thesis by simp
qed

text \<open>The theorem at a response that asks for \<^verbatim>\<open>math_add\<close>, then for the unknown
  \<^verbatim>\<open>math_mul\<close>, then for \<^verbatim>\<open>files_read\<close>.\<close>

theorem unknown_tool_aborts_query_witness:
  "llm (demo llm_unknown) (first_request (demo llm_unknown) ''q'')
      = Inr (tool_response ([call_add] @ call_mul # [call_read]))
   \<and> map (invoke demo_parse (demo llm_unknown)) [call_add]
      = map Inr [((''math'', ''add'', add_args), ''4'')]
   \<and> tc_name call_mul \<notin> fn_name ` set (allFunctions (demo llm_unknown))
   \<and> fst (processQuery demo_parse (demo llm_unknown) ''q'') = Inl (UnknownToolError ''math_mul'')
   \<and> messages (snd (processQuery demo_parse (demo llm_unknown) ''q''))
      = seed (demo llm_unknown) ''q'' @
          [assistant_message call_add, tool_message call_add ''4'']
   \<and> calls (snd (processQuery demo_parse (demo llm_unknown) ''q''))
      = [(''math'', ''add'', add_args)]"
proof -
  have h1: "llm (demo llm_unknown) (first_request (demo llm_unknown) ''q'')
      = Inr (tool_response ([call_add] @ call_mul # [call_read]))"
    by (simp add: demo_defs run_defs llm_unknown_def)
  have h2: "choices (tool_response ([call_add] @ call_mul # [call_read]))
      = \<lparr> rm_content = None, rm_tool_calls = Some ([call_add] @ call_mul # [call_read]) \<rparr> # []"
    by (simp add: tool_response_def)
  have h3: "rm_tool_calls \<lparr> rm_content = None,
                rm_tool_calls = Some ([call_add] @ call_mul # [call_read]) \<rparr>
      = Some ([call_add] @ call_mul # [call_read])"
    by simp
  have h4: "map (invoke demo_parse (demo llm_unknown)) [call_add]
      = map Inr [((''math'', ''add'', add_args), ''4'')]"
    by (simp add: demo_defs run_defs)
  have h5: "tc_name call_mul \<notin> fn_name ` set (allFunctions (demo llm_unknown))"
    by (simp add: demo_defs call_mul_def)
  have n: "tc_name call_mul = ''math_mul''" by (simp add: call_mul_def)
  have ap: "appended [call_add] [((''math'', ''add'', add_args), ''4'')]
      = [assistant_message call_add, tool_message call_add ''4'']"
    by (simp add: appended_def)
  show ?thesis
    using unknown_tool_aborts_query [OF h1 h2 h3 h4 h5] h1 h4 h5
    by (simp add: n ap)
qed

text \<open>
  C8 as stated fails for a model response whose tool calls are not reached. The second
  response of the first model below asks for \<^verbatim>\<open>math_mul\<close>, which is not registered, and
  the query ends with the empty answer. The first response of the second model asks for
  \<^verbatim>\<open>math_mul\<close> after a call whose arguments do not parse, and the query fails with
  \<open>MalformedArgumentsError\<close>.
\<close>

theorem unknown_tool_unnoticed_counterexample:
  "llm_late (bare_request (messages (snd (processQuery demo_parse (demo llm_late) ''q''))))
      = Inr \<lparr> choices = [\<lparr> rm_content = None, rm_tool_calls = Some [call_mul] \<rparr>] \<rparr>
   \<and> tc_name call_mul \<notin> fn_name ` set (allFunctions (demo llm_late))
   \<and> fst (processQuery demo_parse (demo llm_late) ''q'') = Inr []
   \<and> length (requests (snd (processQuery demo_parse (demo llm_late) ''q''))) = 2
   \<and> llm_masked (first_request (demo llm_masked) ''q'')
      = Inr \<lparr> choices = [\<lparr> rm_content = None, rm_tool_calls = Some [call_bad, call_mul] \<rparr>] \<rparr>
   \<and> tc_name call_mul \<notin> fn_name ` set (allFunctions (demo llm_masked))
   \<and> fst (processQuery demo_parse (demo llm_masked) ''q'') = Inl MalformedArgumentsError"
  by (simp add: demo_defs run_defs llm_late_def llm_masked_def call_bad_def)

subsection \<open>C9: the messages a round of tool calls appends\<close>

text \<open>
  C9. Let the model response hold tool calls that all succeed. Then the history handed
  to the next model call is the seed followed, for each call in the order of the
  response, by one assistant message that carries that single call and one tool
  message that carries its result and the call's id; these are two messages for each
  call, so exactly two for a response with one call. The servers are called once for
  each tool call, in the same order.
\<close>

theorem tool_calls_append_pairs_in_order:
  assumes "llm orc (first_request orc q) = Inr result" and "choices result = response # others"
    and "rm_tool_calls response = Some tcs" and "tcs \<noteq> []"
    and "map (invoke P orc) tcs = map Inr outs"
  shows "messages (snd (processQuery P orc q)) = seed orc q @ appended tcs outs
         \<and> appended tcs outs
             = concat (map2 (\<lambda>tc out.
                 [\<lparr> role = Assistant, content = None, tool_calls = Some [tc],
                    tool_call_id = None \<rparr>,
                  \<lparr> role = Tool, content = Some (snd out), tool_calls = None,
                    tool_call_id = Some (tc_id tc) \<rparr>]) tcs outs)
         \<and> length (appended tcs outs) = 2 * length tcs
         \<and> calls (snd (processQuery P orc q)) = map fst outs
         \<and> requests (snd (processQuery P orc q))
             = [first_request orc q, bare_request (seed orc q @ appended tcs outs)]"
proof -
  have s: "snd (processQuery P orc q) =
           \<lparr> messages = seed orc q @ appended tcs outs,
             requests = [first_request orc q, bare_request (seed orc q @ appended tcs outs)],
             calls = map fst outs \<rparr>"
    by (rule processQuery_success(1) [OF assms])
  have l: "length (appended tcs outs) = 2 * length tcs"
    by (rule length_appended [OF invoke_all_length [OF assms(5)]])
  show ?thesis
    using l by (simp add: s) (simp add: appended_def assistant_message_def tool_message_def)
qed

text \<open>The theorem at a response with three tool calls.\<close>

theorem tool_calls_append_pairs_in_order_witness:
  "llm (demo llm_tools) (first_request (demo llm_tools) ''q'')
      = Inr (tool_response [call_add, call_read, call_void])
   \<and> map (invoke demo_parse (demo llm_tools)) [call_add, call_read, call_void]
      = map Inr [((''math'', ''add'', add_args), ''4''),
                 ((''files'', ''read'', JObj []), ''data''),
                 ((''math'', ''read'', JObj []), [CHR 0x22, CHR 0x22])]
   \<and> messages (snd (processQuery demo_parse (demo llm_tools) ''q''))
      = seed (demo llm_tools) ''q'' @
          [assistant_message call_add, tool_message call_add ''4'',
           assistant_message call_read, tool_message call_read ''data'',
           assistant_message call_void, tool_message call_void [CHR 0x22, CHR 0x22]]
   \<and> tool_call_id (tool_message call_add ''4'') = Some ''call_1''
   \<and> calls (snd (processQuery demo_parse (demo llm_tools) ''q''))
      = [(''math'', ''add'', add_args), (''files'', ''read'', JObj []),
         (''math'', ''read'', JObj [])]"
proof -
  let ?tcs = "[call_add, call_read, call_void]"
  let ?outs = "[((''math'', ''add'', add_args), ''4''),
                 ((''files'', ''read'', JObj []), ''data''),
                 ((''math'', ''read'', JObj []), [CHR 0x22, CHR 0x22])]"
  have h1: "llm (demo llm_tools) (first_request (demo llm_tools) ''q'') = Inr (tool_response ?tcs)"
    by (simp add: demo_defs run_defs llm_tools_def)
  have h2: "choices (tool_response ?tcs) = \<lparr> rm_content = None, rm_tool_calls = Some ?tcs \<rparr> # []"
    by (simp add: tool_response_def)
  have h3: "rm_tool_calls \<lparr> rm_content = None, rm_tool_calls = Some ?tcs \<rparr> = Some ?tcs"
    by simp
  have h4: "?tcs \<noteq> []" by simp
  have h5: "map (invoke demo_parse (demo llm_tools)) ?tcs = map Inr ?outs"
    by (simp add: demo_defs run_defs)
  have ap: "appended ?tcs ?outs
      = [assistant_message call_add, tool_message call_add ''4'',
           assistant_message call_read, tool_message call_read ''data'',
           assistant_message call_void, tool_message call_void [CHR 0x22, CHR 0x22]]"
    by (simp add: appended_def)
  have i: "tool_call_id (tool_message call_add ''4'') = Some ''call_1''"
    by (simp add: tool_message_def call_add_def)
  note T = tool_calls_append_pairs_in_order [OF h1 h2 h3 h4 h5]
  show ?thesis
    using T [THEN conjunct1] T [THEN conjunct2, THEN conjunct2, THEN conjunct2, THEN conjunct1]
      h1 h5 i
    by (simp add: ap)
qed

subsection \<open>C10: the content of a tool message\<close>

text \<open>
  C10. The content of a tool message is text for every result of a server: a string
  result is taken as it is, a missing or \<^verbatim>\<open>null\<close> content becomes the two characters
  \<^verbatim>\<open>""\<close>, the serialization of the empty string, and any other value is serialized.
  Every message of role \<open>Tool\<close> in the history of a query comes from a tool call of the
  first model response that resolved, parsed and was answered by its server: the
  message carries the id of that call, and its content is the text of the result the
  server returned for that call, never a missing content.
\<close>

theorem tool_message_content_is_text:
  "result_content \<lparr> tr_content = Some (JStr s) \<rparr> = s
   \<and> result_content \<lparr> tr_content = None \<rparr> = [CHR 0x22, CHR 0x22]
   \<and> result_content \<lparr> tr_content = Some JNull \<rparr> = [CHR 0x22, CHR 0x22]
   \<and> (v \<noteq> JNull \<and> v \<notin> range JStr \<longrightarrow>
        result_content \<lparr> tr_content = Some v \<rparr> = JSON_stringify v)
   \<and> list_all (\<lambda>m. role m = Tool \<longrightarrow>
        (\<exists>result response others tcs tc server toolName args tr.
           llm orc (first_request orc q) = Inr result \<and> choices result = response # others
           \<and> rm_tool_calls response = Some tcs \<and> tc \<in> set tcs
           \<and> resolve orc (tc_name tc) = Inr (server, toolName)
           \<and> P (tc_arguments tc) = Some args
           \<and> callTool (srv_client server) toolName args = Inr tr
           \<and> m = \<lparr> role = Tool, content = Some (result_content tr), tool_calls = None,
                   tool_call_id = Some (tc_id tc) \<rparr>))
      (messages (snd (processQuery P orc q)))"
proof -
  have seed_none: "\<And>S. \<forall>m \<in> set (messages (start_run orc q)). role m = Tool \<longrightarrow>
           (\<exists>tc server toolName args tr. tc \<in> S
              \<and> resolve orc (tc_name tc) = Inr (server, toolName)
              \<and> P (tc_arguments tc) = Some args
              \<and> callTool (srv_client server) toolName args = Inr tr
              \<and> m = tool_message tc (result_content tr))"
    by (simp add: start_run_def seed_def)
  have hist: "\<forall>m \<in> set (messages (snd (processQuery P orc q))). role m = Tool \<longrightarrow>
        (\<exists>result response others tcs tc server toolName args tr.
           llm orc (first_request orc q) = Inr result \<and> choices result = response # others
           \<and> rm_tool_calls response = Some tcs \<and> tc \<in> set tcs
           \<and> resolve orc (tc_name tc) = Inr (server, toolName)
           \<and> P (tc_arguments tc) = Some args
           \<and> callTool (srv_client server) toolName args = Inr tr
           \<and> m = \<lparr> role = Tool, content = Some (result_content tr), tool_calls = None,
                   tool_call_id = Some (tc_id tc) \<rparr>)"
  proof (intro ballI impI)
    fix m
    assume m: "m \<in> set (messages (snd (processQuery P orc q)))" and t: "role m = Tool"
    from processQuery_history [of P orc q]
    consider "messages (snd (processQuery P orc q)) = seed orc q"
      | result response others tcs where
          "llm orc (first_request orc q) = Inr result" "choices result = response # others"
          "rm_tool_calls response = Some tcs"
          "messages (snd (processQuery P orc q))
             = messages (snd (dispatch P orc tcs (start_run orc q)))"
      by blast
    then show "\<exists>result response others tcs tc server toolName args tr.
           llm orc (first_request orc q) = Inr result \<and> choices result = response # others
           \<and> rm_tool_calls response = Some tcs \<and> tc \<in> set tcs
           \<and> resolve orc (tc_name tc) = Inr (server, toolName)
           \<and> P (tc_arguments tc) = Some args
           \<and> callTool (srv_client server) toolName args = Inr tr
           \<and> m = \<lparr> role = Tool, content = Some (result_content tr), tool_calls = None,
                   tool_call_id = Some (tc_id tc) \<rparr>"
    proof cases
      case 1
      then show ?thesis using m t by (auto simp: seed_def)
    next
      case 2
      from dispatch_tool_origin [where tcs = tcs and S = "set tcs" and r = "start_run orc q"
          and P = P and orc = orc, OF subset_refl seed_none] m t 2(4)
      obtain tc server toolName args tr where
        "tc \<in> set tcs" "resolve orc (tc_name tc) = Inr (server, toolName)"
        "P (tc_arguments tc) = Some args" "callTool (srv_client server) toolName args = Inr tr"
        "m = tool_message tc (result_content tr)"
        by auto
      then show ?thesis using 2(1-3) by (auto simp: tool_message_def)
    qed
  qed
  have "v \<noteq> JNull \<and> v \<notin> range JStr \<longrightarrow>
        result_content \<lparr> tr_content = Some v \<rparr> = JSON_stringify v"
    by (cases v) (auto simp: result_content_def nullish_def)
  moreover have "result_content \<lparr> tr_content = Some (JStr s) \<rparr> = s"
    by (simp add: result_content_def)
  moreover have "result_content \<lparr> tr_content = None \<rparr> = [CHR 0x22, CHR 0x22]"
    by (simp add: result_content_def nullish_def quote_def)
  moreover have "result_content \<lparr> tr_content = Some JNull \<rparr> = [CHR 0x22, CHR 0x22]"
    by (simp add: result_content_def nullish_def quote_def)
  ultimately show ?thesis
    using hist unfolding list_all_iff by blast
qed

text \<open>
  The theorem at a query whose five tool calls return a number, a string, no content,
  an array of one content block and \<^verbatim>\<open>null\<close>, and at the number ten to the power 21.
\<close>

theorem tool_message_content_is_text_witness:
  "map content (filter (\<lambda>m. role m = Tool) (messages (snd (processQuery demo_parse five ''q''))))
     = [Some ''4'', Some ''data'', Some [CHR 0x22, CHR 0x22], Some blocks_text,
        Some [CHR 0x22, CHR 0x22]]
   \<and> blocks_value \<noteq> JNull \<and> blocks_value \<notin> range JStr
   \<and> result_content \<lparr> tr_content = Some blocks_value \<rparr> = blocks_text
   \<and> JNum ''1e+21'' \<noteq> JNull \<and> JNum ''1e+21'' \<notin> range JStr
   \<and> result_content \<lparr> tr_content = Some (JNum ''1e+21'') \<rparr> = ''1e+21''
   \<and> list_all (\<lambda>m. role m \<noteq> Tool \<or> content m \<noteq> None)
        (messages (snd (processQuery demo_parse five ''q'')))"
proof -
  have a: "map content (filter (\<lambda>m. role m = Tool)
             (messages (snd (processQuery demo_parse five ''q''))))
     = [Some ''4'', Some ''data'', Some [CHR 0x22, CHR 0x22], Some blocks_text,
        Some [CHR 0x22, CHR 0x22]]"
    by (simp add: five_def sdk_client_def llm_five_def call_blocks_def call_null_def
        blocks_value_def blocks_text_def escape_char_def demo_defs run_defs)
  have b: "blocks_value \<noteq> JNull \<and> blocks_value \<notin> range JStr"
    by (auto simp: blocks_value_def)
  have c: "JSON_stringify blocks_value = blocks_text"
    by (simp add: blocks_value_def blocks_text_def quote_def escape_char_def)
  have d: "JNum ''1e+21'' \<noteq> JNull \<and> JNum ''1e+21'' \<notin> range JStr" by auto
  note T = tool_message_content_is_text [where s = "[]" and v = blocks_value and P = demo_parse
      and orc = five and q = "''q''"]
  note U = tool_message_content_is_text [where s = "[]" and v = "JNum ''1e+21''"
      and P = demo_parse and orc = five and q = "''q''"]
  have e: "result_content \<lparr> tr_content = Some blocks_value \<rparr> = blocks_text"
    using T b c by simp
  have f: "result_content \<lparr> tr_content = Some (JNum ''1e+21'') \<rparr> = ''1e+21''"
    using U d by simp
  have g: "list_all (\<lambda>m. role m \<noteq> Tool \<or> content m \<noteq> None)
        (messages (snd (processQuery demo_parse five ''q'')))"
    using T unfolding list_all_iff by fastforce
  show ?thesis using a b d e f g by simp
qed

end
